theory Spec2Isabelle
  imports Main "HOL-Library.Sublist"
begin

section \<open>Python values used by the handlers\<close>

text \<open>
  The backend is a FastAPI application. Each controller function is embedded as a HOL
  function of the same name that takes the validated request schema, the database
  session and the authenticated user, and returns what the Python function returns or
  raises, together with the session after the call. Request parsing, response
  serialisation and routing belong to the framework and are not part of the functions.

  Timestamps are microseconds since the epoch (the resolution of Python's
  \<^verbatim>\<open>datetime\<close>), dates are day numbers.
\<close>

type_synonym datetime = int
type_synonym date = int

text \<open>\<^verbatim>\<open>str(n)\<close> for an integer, used by the f-strings of the handlers.\<close>

fun str_nat :: "nat \<Rightarrow> string" where
  "str_nat n =
     (if n < 10 then [''0123456789'' ! n]
      else str_nat (n div 10) @ [''0123456789'' ! (n mod 10)])"

declare str_nat.simps [simp del]

definition str_int :: "int \<Rightarrow> string" where
  "str_int i = (if i < 0 then CHR ''-'' # str_nat (nat (- i)) else str_nat (nat i))"

text \<open>\<^verbatim>\<open>str.lower()\<close> and \<^verbatim>\<open>str.upper()\<close> on ASCII text.\<close>

definition lower_char :: "char \<Rightarrow> char" where
  "lower_char c =
     (case map_of (zip ''ABCDEFGHIJKLMNOPQRSTUVWXYZ'' ''abcdefghijklmnopqrstuvwxyz'') c of
        Some d \<Rightarrow> d
      | None \<Rightarrow> c)"

definition upper_char :: "char \<Rightarrow> char" where
  "upper_char c =
     (case map_of (zip ''abcdefghijklmnopqrstuvwxyz'' ''ABCDEFGHIJKLMNOPQRSTUVWXYZ'') c of
        Some d \<Rightarrow> d
      | None \<Rightarrow> c)"

definition lower :: "string \<Rightarrow> string" where
  "lower s = map lower_char s"

definition upper :: "string \<Rightarrow> string" where
  "upper s = map upper_char s"

text \<open>The Python test \<^verbatim>\<open>needle in haystack\<close> on strings.\<close>

fun starts_with :: "string \<Rightarrow> string \<Rightarrow> bool" where
  "starts_with [] t = True"
| "starts_with (c # s) [] = False"
| "starts_with (c # s) (d # t) = (c = d \<and> starts_with s t)"

fun str_in :: "string \<Rightarrow> string \<Rightarrow> bool" where
  "str_in s [] = (s = [])"
| "str_in s (d # t) = (starts_with s (d # t) \<or> str_in s t)"

text \<open>
  Exceptions. \<^verbatim>\<open>HTTPException\<close> is what a handler raises on purpose; the other
  classes are raised by SQLAlchemy, passlib or PyJWT and carry the text that
  \<^verbatim>\<open>str(e)\<close> gives. \<open>SQLAlchemyError\<close> and \<open>PyException\<close> stand for any
  other subclass, with the name of its type.
\<close>

datatype HTTPException = HTTPException (status_code: nat) (detail: string)

datatype py_exception =
    ProgrammingError string
  | IntegrityError string
  | SQLAlchemyError string string
  | PyException string string

fun str_exc :: "py_exception \<Rightarrow> string" where
  "str_exc (ProgrammingError m) = m"
| "str_exc (IntegrityError m) = m"
| "str_exc (SQLAlchemyError n m) = m"
| "str_exc (PyException n m) = m"

fun type_name :: "py_exception \<Rightarrow> string" where
  "type_name (ProgrammingError m) = ''ProgrammingError''"
| "type_name (IntegrityError m) = ''IntegrityError''"
| "type_name (SQLAlchemyError n m) = n"
| "type_name (PyException n m) = n"

text \<open>
  A field of an update schema: pydantic remembers whether the request supplied it
  (\<^verbatim>\<open>dict(exclude_unset=True)\<close> keeps exactly the supplied ones), and a supplied value
  of an \<^verbatim>\<open>Optional\<close> field may be \<^verbatim>\<open>None\<close>.
\<close>

datatype 'a supplied = Unset | Supplied 'a

text \<open>
  \<^verbatim>\<open>for key, value in update_data.items(): setattr(obj, key, value)\<close>, for one key:
  the attribute takes the supplied value, and keeps its value when the key is absent.
\<close>

fun setattr_if_supplied :: "'a supplied \<Rightarrow> 'a \<Rightarrow> 'a" where
  "setattr_if_supplied Unset old = old"
| "setattr_if_supplied (Supplied v) old = v"

section \<open>models/\<close>

text \<open>\<^verbatim>\<open>class UserRole(str, enum.Enum)\<close> and its \<^verbatim>\<open>.value\<close>.\<close>

datatype UserRole = CUSTOMER | ADMIN

fun UserRole_value :: "UserRole \<Rightarrow> string" where
  "UserRole_value CUSTOMER = ''CUSTOMER''"
| "UserRole_value ADMIN = ''ADMIN''"

text \<open>
  The text of the \<^verbatim>\<open>password_hash\<close> column, read symbolically: either the bcrypt
  string that passlib produced from a salt and a password, or any other text, in which
  passlib identifies no scheme. Hashing is taken as ideal: a bcrypt string verifies
  exactly the password it was made from.
\<close>

datatype hash_string = Bcrypt string string | Malformed string

record UserModel =
  id :: int
  username :: string
  email :: string
  password_hash :: "hash_string option"
  role :: "string option"

text \<open>
  A JSON web token, read symbolically: the claims, and the key whose HS256 signature it
  carries. PyJWT writes a \<^verbatim>\<open>datetime\<close> claim as whole seconds since the epoch
  (\<^verbatim>\<open>timegm(d.utctimetuple())\<close>).
\<close>

record jwt_payload =
  exp :: int
  iat :: int
  sub :: string
  role :: string

record jwt =
  payload :: jwt_payload
  signing_key :: string

definition numeric_date :: "datetime \<Rightarrow> int" where
  "numeric_date d = d div 1000000"

definition timedelta_days :: "int \<Rightarrow> int" where
  "timedelta_days n = n * 86400 * 1000000"

text \<open>
  What a method of \<^verbatim>\<open>UserModel\<close> reads outside its arguments: the signing key of
  \<^verbatim>\<open>config/environment.py\<close>, the two readings of \<^verbatim>\<open>datetime.now\<close> that
  \<^verbatim>\<open>generate_token\<close> makes (the first for \<^verbatim>\<open>exp\<close>, the second for
  \<^verbatim>\<open>iat\<close>), the exception that \<^verbatim>\<open>jwt.encode\<close> raises, if any, and the salt
  that passlib draws for a new hash.
\<close>

record environment =
  secret :: string
  now_exp :: datetime
  now_iat :: datetime
  jwt_encode_fault :: "py_exception option"
  bcrypt_salt :: string

text \<open>
  \<^verbatim>\<open>pwd_context.hash\<close> and \<^verbatim>\<open>pwd_context.verify\<close> of passlib's
  \<^verbatim>\<open>CryptContext(schemes=["bcrypt"])\<close>: verifying against \<^verbatim>\<open>None\<close> returns
  \<^verbatim>\<open>False\<close>, and a text in which no scheme is identified raises
  \<^verbatim>\<open>UnknownHashError\<close>.
\<close>

definition pwd_context_hash :: "string \<Rightarrow> string \<Rightarrow> hash_string" where
  "pwd_context_hash salt password = Bcrypt salt password"

fun pwd_context_verify :: "string \<Rightarrow> hash_string option \<Rightarrow> py_exception + bool" where
  "pwd_context_verify password None = Inr False"
| "pwd_context_verify password (Some (Bcrypt salt hashed)) = Inr (hashed = password)"
| "pwd_context_verify password (Some (Malformed text)) =
     Inl (PyException ''UnknownHashError'' ''hash could not be identified'')"

definition set_password :: "environment \<Rightarrow> UserModel \<Rightarrow> string \<Rightarrow> UserModel" where
  "set_password env self password =
     self\<lparr>UserModel.password_hash := Some (pwd_context_hash (bcrypt_salt env) password)\<rparr>"

definition verify_password :: "UserModel \<Rightarrow> string \<Rightarrow> py_exception + bool" where
  "verify_password self password = pwd_context_verify password (UserModel.password_hash self)"

text \<open>Python's \<^verbatim>\<open>x if x else d\<close> and \<^verbatim>\<open>x or d\<close> on a string that may be \<^verbatim>\<open>None\<close>.\<close>

fun or_default :: "string option \<Rightarrow> string \<Rightarrow> string" where
  "or_default None d = d"
| "or_default (Some x) d = (if x = [] then d else x)"

definition generate_token :: "environment \<Rightarrow> UserModel \<Rightarrow> py_exception + jwt" where
  "generate_token env self =
     (let role_value = or_default (UserModel.role self) ''CUSTOMER'';
          payload =
            \<lparr>jwt_payload.exp = numeric_date (now_exp env + timedelta_days 1),
             jwt_payload.iat = numeric_date (now_iat env),
             jwt_payload.sub = str_int (UserModel.id self),
             jwt_payload.role = role_value\<rparr>
      in case jwt_encode_fault env of
           Some e \<Rightarrow> Inl e
         | None \<Rightarrow> Inr \<lparr>jwt.payload = payload, jwt.signing_key = secret env\<rparr>)"

definition is_admin :: "UserModel \<Rightarrow> bool" where
  "is_admin self = (UserModel.role self = Some (UserRole_value ADMIN))"

definition is_customer :: "UserModel \<Rightarrow> bool" where
  "is_customer self = (UserModel.role self = Some (UserRole_value CUSTOMER))"

text \<open>
  The four owned resources. A column is an \<open>option\<close> where the Python attribute can
  hold \<^verbatim>\<open>None\<close>; \<^verbatim>\<open>nullable=False\<close> is the check the database makes when the
  session is flushed.
\<close>

text \<open>
  Modelled from the spec: the \<^verbatim>\<open>created_at\<close> column of habits, notes and daily
  goals. It is declared by the declarative base (\<^verbatim>\<open>models/base.py\<close>), which is not
  among the sources; the specification orders the lists by creation time, the handlers
  order by this column, and \<^verbatim>\<open>TaskModel\<close> declares its own column of that name,
  filled with the time of the insert.
\<close>

record TaskModel =
  id :: int
  title :: "string option"
  description :: "string option"
  due_date :: "datetime option"
  is_completed :: "bool option"
  created_at :: datetime
  user_id :: int

record HabitModel =
  id :: int
  user_id :: int
  title :: "string option"
  description :: "string option"
  completed_at :: "datetime option"
  is_completed :: "bool option"
  created_at :: datetime

record NoteModel =
  id :: int
  user_id :: int
  title :: "string option"
  content :: "string option"
  created_at :: datetime

record DailyGoalModel =
  id :: int
  title :: "string option"
  description :: "string option"
  goal_date :: "date option"
  is_completed :: "bool option"
  user_id :: int
  created_at :: datetime

text \<open>The \<^verbatim>\<open>nullable=False\<close> columns that an update can reach.\<close>

definition TaskModel_not_null :: "TaskModel \<Rightarrow> bool" where
  "TaskModel_not_null t = (TaskModel.title t \<noteq> None \<and> TaskModel.description t \<noteq> None)"

definition HabitModel_not_null :: "HabitModel \<Rightarrow> bool" where
  "HabitModel_not_null h = (HabitModel.title h \<noteq> None)"

definition NoteModel_not_null :: "NoteModel \<Rightarrow> bool" where
  "NoteModel_not_null n = (NoteModel.title n \<noteq> None)"

definition DailyGoalModel_not_null :: "DailyGoalModel \<Rightarrow> bool" where
  "DailyGoalModel_not_null g =
     (DailyGoalModel.title g \<noteq> None \<and> DailyGoalModel.goal_date g \<noteq> None)"

section \<open>database.py: the session\<close>

text \<open>
  The session holds the committed rows of the five tables. \<open>query_fault\<close> and
  \<open>commit_fault\<close> are the exception, if any, that the storage layer raises for a
  reason outside these rows (a lost connection, a missing column, a row that another
  request inserted between this request's check and its insert).
\<close>

record Session =
  users :: "UserModel list"
  tasks :: "TaskModel list"
  habits :: "HabitModel list"
  notes_table :: "NoteModel list"
  daily_goals :: "DailyGoalModel list"
  query_fault :: "py_exception option"
  commit_fault :: "py_exception option"

text \<open>An autoincrement primary key: above every key of the table.\<close>

definition next_id :: "int list \<Rightarrow> int" where
  "next_id ids = fold max ids 0 + 1"

text \<open>
  \<^verbatim>\<open>db.commit()\<close> of one changed or new row: the flush raises when the row breaks a
  \<^verbatim>\<open>nullable=False\<close> column or when the storage layer fails, and returns otherwise.
\<close>

definition commit :: "bool \<Rightarrow> Session \<Rightarrow> py_exception option" where
  "commit not_null_ok db =
     (if \<not> not_null_ok
      then Some (IntegrityError ''null value in column violates not-null constraint'')
      else commit_fault db)"

section \<open>serializers/: the request schemas\<close>

record TaskCreate =
  title :: string
  description :: string
  due_date :: "datetime option"

record TaskUpdate =
  title :: "string option supplied"
  description :: "string option supplied"
  due_date :: "datetime option supplied"
  is_completed :: "bool option supplied"

record HabitCreate =
  title :: string
  description :: "string option"

record HabitUpdate =
  title :: "string option supplied"
  description :: "string option supplied"
  is_completed :: "bool option supplied"

record NoteCreate =
  title :: string
  content :: "string option"

record NoteUpdate =
  title :: "string option supplied"
  content :: "string option supplied"

record DailyGoalCreate =
  title :: string
  description :: string
  goal_date :: date

record DailyGoalUpdate =
  title :: "string option supplied"
  description :: "string option supplied"
  goal_date :: "date option supplied"
  is_completed :: "bool option supplied"

text \<open>
  \<^verbatim>\<open>UserSchema\<close>: \<^verbatim>\<open>role: Optional[str] = Field(default="CUSTOMER")\<close>, so the
  object holds \<^verbatim>\<open>"CUSTOMER"\<close> when the request has no role, and \<^verbatim>\<open>None\<close> when
  the request gives \<^verbatim>\<open>null\<close>. \<open>UserSchema_of\<close> builds the object from the fields
  of a request.
\<close>

record UserSchema =
  username :: string
  email :: string
  password :: string
  role :: "string option"

definition UserSchema_of ::
  "string \<Rightarrow> string \<Rightarrow> string \<Rightarrow> string option supplied \<Rightarrow> UserSchema" where
  "UserSchema_of name mail pw r =
     \<lparr>UserSchema.username = name, UserSchema.email = mail, UserSchema.password = pw,
      UserSchema.role = setattr_if_supplied r (Some ''CUSTOMER'')\<rparr>"

record UserLogin =
  username :: string
  password :: string

text \<open>A JSON value of a response that a handler builds as a Python \<^verbatim>\<open>dict\<close>.\<close>

datatype json = JStr string | JInt int | JBool bool | JToken jwt

section \<open>The queries of the list handlers\<close>

text \<open>
  SQL's \<^verbatim>\<open>LIKE\<close> as PostgreSQL reads a pattern: \<^verbatim>\<open>%\<close> matches any run of
  characters, \<^verbatim>\<open>_\<close> any one character, a backslash makes the next character
  literal, and every other character matches itself. (A pattern that ends in a lone
  backslash is an error in PostgreSQL; the handlers build no such pattern, since theirs
  end in \<^verbatim>\<open>%\<close>.) \<^verbatim>\<open>ILIKE\<close> compares without regard to case.
\<close>

definition like_meta :: "char \<Rightarrow> bool" where
  "like_meta c = (c = CHR ''%'' \<or> c = CHR ''_'' \<or> c = CHR 0x5C)"

fun like :: "string \<Rightarrow> string \<Rightarrow> bool" where
  "like [] t = (t = [])"
| "like (p # ps) [] = (p = CHR ''%'' \<and> like ps [])"
| "like (p # ps) (c # t) =
     (if p = CHR ''%'' then like ps (c # t) \<or> like (p # ps) t
      else if p = CHR ''_'' then like ps t
      else if p = CHR 0x5C then (case ps of [] \<Rightarrow> False | q # qs \<Rightarrow> c = q \<and> like qs t)
      else c = p \<and> like ps t)"

definition ilike :: "string \<Rightarrow> string \<Rightarrow> bool" where
  "ilike text pattern = like (lower pattern) (lower text)"

text \<open>
  \<^verbatim>\<open>Model.column.ilike(pattern)\<close> inside a \<^verbatim>\<open>WHERE\<close> clause: on a \<^verbatim>\<open>NULL\<close>
  column the comparison is \<^verbatim>\<open>NULL\<close>, which selects the row only if the other side of
  the \<^verbatim>\<open>OR\<close> is true.
\<close>

fun column_ilike :: "string option \<Rightarrow> string \<Rightarrow> bool" where
  "column_ilike None pattern = False"
| "column_ilike (Some text) pattern = ilike text pattern"

text \<open>The f-string \<^verbatim>\<open>f"%{search}%"\<close>.\<close>

definition search_term :: "string \<Rightarrow> string" where
  "search_term search = CHR ''%'' # search @ ''%''"

section \<open>controllers/tasks.py\<close>

definition create_task ::
  "TaskCreate \<Rightarrow> Session \<Rightarrow> UserModel \<Rightarrow> datetime \<Rightarrow> (HTTPException + TaskModel) \<times> Session" where
  "create_task task db current_user now =
     (let new_task =
        \<lparr>TaskModel.id = next_id (map TaskModel.id (tasks db)),
         TaskModel.title = Some (TaskCreate.title task),
         TaskModel.description = Some (TaskCreate.description task),
         TaskModel.due_date = TaskCreate.due_date task,
         TaskModel.is_completed = Some False,
         TaskModel.created_at = now,
         TaskModel.user_id = UserModel.id current_user\<rparr>
      in case commit (TaskModel_not_null new_task) db of
           Some e \<Rightarrow>
             (Inl (HTTPException 500 (''Failed to create task: '' @ str_exc e)), db)
         | None \<Rightarrow> (Inr new_task, db\<lparr>tasks := tasks db @ [new_task]\<rparr>))"

definition get_single_task ::
  "int \<Rightarrow> Session \<Rightarrow> UserModel \<Rightarrow> HTTPException + TaskModel" where
  "get_single_task task_id db current_user =
     (case find (\<lambda>t. TaskModel.id t = task_id) (tasks db) of
        None \<Rightarrow>
          Inl (HTTPException 404 (''Task with id '' @ str_int task_id @ '' not found''))
      | Some task \<Rightarrow>
          if TaskModel.user_id task \<noteq> UserModel.id current_user
             \<and> UserModel.role current_user \<noteq> Some (UserRole_value ADMIN)
          then Inl (HTTPException 403 ''You can only view your own tasks'')
          else Inr task)"

definition update_task ::
  "int \<Rightarrow> TaskUpdate \<Rightarrow> Session \<Rightarrow> UserModel \<Rightarrow> (HTTPException + TaskModel) \<times> Session" where
  "update_task task_id task_update db current_user =
     (case find (\<lambda>t. TaskModel.id t = task_id) (tasks db) of
        None \<Rightarrow>
          (Inl (HTTPException 404 (''Task with id '' @ str_int task_id @ '' not found'')), db)
      | Some db_task \<Rightarrow>
          if TaskModel.user_id db_task \<noteq> UserModel.id current_user
             \<and> UserModel.role current_user \<noteq> Some (UserRole_value ADMIN)
          then (Inl (HTTPException 403 ''You can only update your own tasks''), db)
          else
            let db_task' = db_task
              \<lparr>TaskModel.title :=
                 setattr_if_supplied (TaskUpdate.title task_update) (TaskModel.title db_task),
               TaskModel.description :=
                 setattr_if_supplied (TaskUpdate.description task_update)
                   (TaskModel.description db_task),
               TaskModel.due_date :=
                 setattr_if_supplied (TaskUpdate.due_date task_update)
                   (TaskModel.due_date db_task),
               TaskModel.is_completed :=
                 setattr_if_supplied (TaskUpdate.is_completed task_update)
                   (TaskModel.is_completed db_task)\<rparr>
            in case commit (TaskModel_not_null db_task') db of
                 Some e \<Rightarrow>
                   (Inl (HTTPException 500 (''Failed to update task: '' @ str_exc e)), db)
               | None \<Rightarrow>
                   (Inr db_task',
                    db\<lparr>tasks :=
                      map (\<lambda>t. if TaskModel.id t = task_id then db_task' else t) (tasks db)\<rparr>))"

definition delete_task ::
  "int \<Rightarrow> Session \<Rightarrow> UserModel \<Rightarrow> (HTTPException + (string \<times> json) list) \<times> Session" where
  "delete_task task_id db current_user =
     (case find (\<lambda>t. TaskModel.id t = task_id) (tasks db) of
        None \<Rightarrow>
          (Inl (HTTPException 404 (''Task with id '' @ str_int task_id @ '' not found'')), db)
      | Some db_task \<Rightarrow>
          if TaskModel.user_id db_task \<noteq> UserModel.id current_user
             \<and> UserModel.role current_user \<noteq> Some (UserRole_value ADMIN)
          then (Inl (HTTPException 403 ''You can only delete your own tasks''), db)
          else
            case commit True db of
              Some e \<Rightarrow>
                (Inl (HTTPException 500 (''Failed to delete task: '' @ str_exc e)), db)
            | None \<Rightarrow>
                (Inr [(''message'',
                       JStr (''Task with id '' @ str_int task_id
                             @ '' has been permanently deleted''))],
                 db\<lparr>tasks := filter (\<lambda>t. TaskModel.id t \<noteq> task_id) (tasks db)\<rparr>))"

definition get_tasks ::
  "Session \<Rightarrow> UserModel \<Rightarrow> bool option \<Rightarrow> string option \<Rightarrow> HTTPException + TaskModel list" where
  "get_tasks db current_user completed search =
     (case query_fault db of
        Some e \<Rightarrow> Inl (HTTPException 500 (''Failed to fetch tasks: '' @ str_exc e))
      | None \<Rightarrow>
          let query = filter (\<lambda>t. TaskModel.user_id t = UserModel.id current_user) (tasks db);
              query = (case completed of
                         None \<Rightarrow> query
                       | Some c \<Rightarrow> filter (\<lambda>t. TaskModel.is_completed t = Some c) query);
              query = (case search of
                         None \<Rightarrow> query
                       | Some s \<Rightarrow>
                           if s = [] then query
                           else filter (\<lambda>t. column_ilike (TaskModel.title t) (search_term s)
                                  \<or> column_ilike (TaskModel.description t) (search_term s)) query)
          in Inr (sort_key (\<lambda>t. - TaskModel.created_at t) query))"

section \<open>controllers/habits.py\<close>

definition create_habit ::
  "HabitCreate \<Rightarrow> Session \<Rightarrow> UserModel \<Rightarrow> datetime \<Rightarrow> (HTTPException + HabitModel) \<times> Session" where
  "create_habit habit db current_user now =
     (let new_habit =
        \<lparr>HabitModel.id = next_id (map HabitModel.id (habits db)),
         HabitModel.user_id = UserModel.id current_user,
         HabitModel.title = Some (HabitCreate.title habit),
         HabitModel.description = HabitCreate.description habit,
         HabitModel.completed_at = None,
         HabitModel.is_completed = Some False,
         HabitModel.created_at = now\<rparr>
      in case commit (HabitModel_not_null new_habit) db of
           Some e \<Rightarrow>
             (Inl (HTTPException 500 (''Failed to create habit: '' @ str_exc e)), db)
         | None \<Rightarrow> (Inr new_habit, db\<lparr>habits := habits db @ [new_habit]\<rparr>))"

definition get_habit ::
  "int \<Rightarrow> Session \<Rightarrow> UserModel \<Rightarrow> HTTPException + HabitModel" where
  "get_habit habit_id db current_user =
     (case find (\<lambda>h. HabitModel.id h = habit_id) (habits db) of
        None \<Rightarrow>
          Inl (HTTPException 404 (''Habit with id '' @ str_int habit_id @ '' not found''))
      | Some habit \<Rightarrow>
          if UserModel.role current_user \<noteq> Some (UserRole_value ADMIN)
             \<and> HabitModel.user_id habit \<noteq> UserModel.id current_user
          then Inl (HTTPException 403 ''You can only view your own habits'')
          else Inr habit)"

text \<open>
  The completion rule of \<^verbatim>\<open>update_habit\<close>: when \<^verbatim>\<open>is_completed\<close> is among the
  supplied keys, \<^verbatim>\<open>update_data['completed_at']\<close> is written before the attributes
  are set: the current time for a true value, \<^verbatim>\<open>None\<close> for \<^verbatim>\<open>False\<close> and for
  \<^verbatim>\<open>None\<close>, which Python also takes as false.
\<close>

fun completed_at_update :: "bool option supplied \<Rightarrow> datetime \<Rightarrow> datetime option supplied" where
  "completed_at_update Unset now = Unset"
| "completed_at_update (Supplied (Some True)) now = Supplied (Some now)"
| "completed_at_update (Supplied (Some False)) now = Supplied None"
| "completed_at_update (Supplied None) now = Supplied None"

definition update_habit ::
  "int \<Rightarrow> HabitUpdate \<Rightarrow> Session \<Rightarrow> UserModel \<Rightarrow> datetime
     \<Rightarrow> (HTTPException + HabitModel) \<times> Session" where
  "update_habit habit_id habit_update db current_user now =
     (case find (\<lambda>h. HabitModel.id h = habit_id) (habits db) of
        None \<Rightarrow>
          (Inl (HTTPException 404 (''Habit with id '' @ str_int habit_id @ '' not found'')), db)
      | Some habit \<Rightarrow>
          if UserModel.role current_user \<noteq> Some (UserRole_value ADMIN)
             \<and> HabitModel.user_id habit \<noteq> UserModel.id current_user
          then (Inl (HTTPException 403 ''You can only update your own habits''), db)
          else
            let habit' = habit
              \<lparr>HabitModel.title :=
                 setattr_if_supplied (HabitUpdate.title habit_update) (HabitModel.title habit),
               HabitModel.description :=
                 setattr_if_supplied (HabitUpdate.description habit_update)
                   (HabitModel.description habit),
               HabitModel.is_completed :=
                 setattr_if_supplied (HabitUpdate.is_completed habit_update)
                   (HabitModel.is_completed habit),
               HabitModel.completed_at :=
                 setattr_if_supplied
                   (completed_at_update (HabitUpdate.is_completed habit_update) now)
                   (HabitModel.completed_at habit)\<rparr>
            in case commit (HabitModel_not_null habit') db of
                 Some e \<Rightarrow>
                   (Inl (HTTPException 500 (''Failed to update habit: '' @ str_exc e)), db)
               | None \<Rightarrow>
                   (Inr habit',
                    db\<lparr>habits :=
                      map (\<lambda>h. if HabitModel.id h = habit_id then habit' else h) (habits db)\<rparr>))"

definition delete_habit ::
  "int \<Rightarrow> Session \<Rightarrow> UserModel \<Rightarrow> (HTTPException + (string \<times> json) list) \<times> Session" where
  "delete_habit habit_id db current_user =
     (case find (\<lambda>h. HabitModel.id h = habit_id) (habits db) of
        None \<Rightarrow>
          (Inl (HTTPException 404 (''Habit with id '' @ str_int habit_id @ '' not found'')), db)
      | Some habit \<Rightarrow>
          if UserModel.role current_user \<noteq> Some (UserRole_value ADMIN)
             \<and> HabitModel.user_id habit \<noteq> UserModel.id current_user
          then (Inl (HTTPException 403 ''You can only delete your own habits''), db)
          else
            case commit True db of
              Some e \<Rightarrow>
                (Inl (HTTPException 500 (''Failed to delete habit: '' @ str_exc e)), db)
            | None \<Rightarrow>
                (Inr [(''message'',
                       JStr (''Habit '' @ str_int habit_id @ '' has been deleted successfully''))],
                 db\<lparr>habits := filter (\<lambda>h. HabitModel.id h \<noteq> habit_id) (habits db)\<rparr>))"

definition get_my_habits ::
  "bool option \<Rightarrow> Session \<Rightarrow> UserModel \<Rightarrow> HTTPException + HabitModel list" where
  "get_my_habits completed db current_user =
     (case query_fault db of
        Some e \<Rightarrow> Inl (HTTPException 500 (''Failed to fetch habits: '' @ str_exc e))
      | None \<Rightarrow>
          let query = filter (\<lambda>h. HabitModel.user_id h = UserModel.id current_user) (habits db);
              query = (case completed of
                         None \<Rightarrow> query
                       | Some c \<Rightarrow> filter (\<lambda>h. HabitModel.is_completed h = Some c) query)
          in Inr (sort_key (\<lambda>h. - HabitModel.created_at h) query))"

section \<open>controllers/notes.py\<close>

definition create_note ::
  "NoteCreate \<Rightarrow> Session \<Rightarrow> UserModel \<Rightarrow> datetime \<Rightarrow> (HTTPException + NoteModel) \<times> Session" where
  "create_note note db current_user now =
     (let new_note =
        \<lparr>NoteModel.id = next_id (map NoteModel.id (notes_table db)),
         NoteModel.user_id = UserModel.id current_user,
         NoteModel.title = Some (NoteCreate.title note),
         NoteModel.content = NoteCreate.content note,
         NoteModel.created_at = now\<rparr>
      in case commit (NoteModel_not_null new_note) db of
           Some e \<Rightarrow>
             (Inl (HTTPException 500 (''Failed to create note: '' @ str_exc e)), db)
         | None \<Rightarrow> (Inr new_note, db\<lparr>notes_table := notes_table db @ [new_note]\<rparr>))"

definition get_note ::
  "int \<Rightarrow> Session \<Rightarrow> UserModel \<Rightarrow> HTTPException + NoteModel" where
  "get_note note_id db current_user =
     (case find (\<lambda>n. NoteModel.id n = note_id) (notes_table db) of
        None \<Rightarrow>
          Inl (HTTPException 404 (''Note with id '' @ str_int note_id @ '' not found''))
      | Some note \<Rightarrow>
          if NoteModel.user_id note \<noteq> UserModel.id current_user
             \<and> UserModel.role current_user \<noteq> Some (UserRole_value ADMIN)
          then Inl (HTTPException 403 ''You can only view your own notes'')
          else Inr note)"

definition update_note ::
  "int \<Rightarrow> NoteUpdate \<Rightarrow> Session \<Rightarrow> UserModel \<Rightarrow> (HTTPException + NoteModel) \<times> Session" where
  "update_note note_id note_update db current_user =
     (case find (\<lambda>n. NoteModel.id n = note_id) (notes_table db) of
        None \<Rightarrow>
          (Inl (HTTPException 404 (''Note with id '' @ str_int note_id @ '' not found'')), db)
      | Some note \<Rightarrow>
          if NoteModel.user_id note \<noteq> UserModel.id current_user
             \<and> UserModel.role current_user \<noteq> Some (UserRole_value ADMIN)
          then (Inl (HTTPException 403 ''You can only update your own notes''), db)
          else
            let note' = note
              \<lparr>NoteModel.title :=
                 setattr_if_supplied (NoteUpdate.title note_update) (NoteModel.title note),
               NoteModel.content :=
                 setattr_if_supplied (NoteUpdate.content note_update) (NoteModel.content note)\<rparr>
            in case commit (NoteModel_not_null note') db of
                 Some e \<Rightarrow>
                   (Inl (HTTPException 500 (''Failed to update note: '' @ str_exc e)), db)
               | None \<Rightarrow>
                   (Inr note',
                    db\<lparr>notes_table :=
                      map (\<lambda>n. if NoteModel.id n = note_id then note' else n) (notes_table db)\<rparr>))"

definition delete_note ::
  "int \<Rightarrow> Session \<Rightarrow> UserModel \<Rightarrow> (HTTPException + (string \<times> json) list) \<times> Session" where
  "delete_note note_id db current_user =
     (case find (\<lambda>n. NoteModel.id n = note_id) (notes_table db) of
        None \<Rightarrow>
          (Inl (HTTPException 404 (''Note with id '' @ str_int note_id @ '' not found'')), db)
      | Some note \<Rightarrow>
          if NoteModel.user_id note \<noteq> UserModel.id current_user
             \<and> UserModel.role current_user \<noteq> Some (UserRole_value ADMIN)
          then (Inl (HTTPException 403 ''You can only delete your own notes''), db)
          else
            case commit True db of
              Some e \<Rightarrow>
                (Inl (HTTPException 500 (''Failed to delete note: '' @ str_exc e)), db)
            | None \<Rightarrow>
                (Inr [(''message'',
                       JStr (''Note '' @ str_int note_id @ '' has been deleted successfully'')),
                      (''success'', JBool True)],
                 db\<lparr>notes_table :=
                   filter (\<lambda>n. NoteModel.id n \<noteq> note_id) (notes_table db)\<rparr>))"

definition get_user_notes ::
  "Session \<Rightarrow> UserModel \<Rightarrow> string option \<Rightarrow> HTTPException + NoteModel list" where
  "get_user_notes db current_user search =
     (case query_fault db of
        Some e \<Rightarrow> Inl (HTTPException 500 (''Failed to fetch notes: '' @ str_exc e))
      | None \<Rightarrow>
          let query = filter (\<lambda>n. NoteModel.user_id n = UserModel.id current_user)
                        (notes_table db);
              query = (case search of
                         None \<Rightarrow> query
                       | Some s \<Rightarrow>
                           if s = [] then query
                           else filter (\<lambda>n. column_ilike (NoteModel.title n) (search_term s)
                                  \<or> column_ilike (NoteModel.content n) (search_term s)) query)
          in Inr (sort_key (\<lambda>n. - NoteModel.created_at n) query))"

section \<open>controllers/daily-goals\<close>

definition create_daily_goal ::
  "DailyGoalCreate \<Rightarrow> Session \<Rightarrow> UserModel \<Rightarrow> datetime
     \<Rightarrow> (HTTPException + DailyGoalModel) \<times> Session" where
  "create_daily_goal goal db current_user now =
     (let new_goal =
        \<lparr>DailyGoalModel.id = next_id (map DailyGoalModel.id (daily_goals db)),
         DailyGoalModel.title = Some (DailyGoalCreate.title goal),
         DailyGoalModel.description = Some (DailyGoalCreate.description goal),
         DailyGoalModel.goal_date = Some (DailyGoalCreate.goal_date goal),
         DailyGoalModel.is_completed = Some False,
         DailyGoalModel.user_id = UserModel.id current_user,
         DailyGoalModel.created_at = now\<rparr>
      in case commit (DailyGoalModel_not_null new_goal) db of
           Some e \<Rightarrow>
             (Inl (HTTPException 500 (''Failed to create daily goal: '' @ str_exc e)), db)
         | None \<Rightarrow> (Inr new_goal, db\<lparr>daily_goals := daily_goals db @ [new_goal]\<rparr>))"

definition get_daily_goal ::
  "int \<Rightarrow> Session \<Rightarrow> UserModel \<Rightarrow> HTTPException + DailyGoalModel" where
  "get_daily_goal goal_id db current_user =
     (case find (\<lambda>g. DailyGoalModel.id g = goal_id) (daily_goals db) of
        None \<Rightarrow>
          Inl (HTTPException 404 (''Daily goal with id '' @ str_int goal_id @ '' not found''))
      | Some goal \<Rightarrow>
          if DailyGoalModel.user_id goal \<noteq> UserModel.id current_user
             \<and> UserModel.role current_user \<noteq> Some (UserRole_value ADMIN)
          then Inl (HTTPException 403 ''You can only view your own daily goals'')
          else Inr goal)"

definition update_daily_goal ::
  "int \<Rightarrow> DailyGoalUpdate \<Rightarrow> Session \<Rightarrow> UserModel
     \<Rightarrow> (HTTPException + DailyGoalModel) \<times> Session" where
  "update_daily_goal goal_id goal_update db current_user =
     (case find (\<lambda>g. DailyGoalModel.id g = goal_id) (daily_goals db) of
        None \<Rightarrow>
          (Inl (HTTPException 404 (''Daily goal with id '' @ str_int goal_id @ '' not found'')),
           db)
      | Some db_goal \<Rightarrow>
          if DailyGoalModel.user_id db_goal \<noteq> UserModel.id current_user
             \<and> UserModel.role current_user \<noteq> Some (UserRole_value ADMIN)
          then (Inl (HTTPException 403 ''Not authorized to update this daily goal''), db)
          else
            let db_goal' = db_goal
              \<lparr>DailyGoalModel.title :=
                 setattr_if_supplied (DailyGoalUpdate.title goal_update)
                   (DailyGoalModel.title db_goal),
               DailyGoalModel.description :=
                 setattr_if_supplied (DailyGoalUpdate.description goal_update)
                   (DailyGoalModel.description db_goal),
               DailyGoalModel.goal_date :=
                 setattr_if_supplied (DailyGoalUpdate.goal_date goal_update)
                   (DailyGoalModel.goal_date db_goal),
               DailyGoalModel.is_completed :=
                 setattr_if_supplied (DailyGoalUpdate.is_completed goal_update)
                   (DailyGoalModel.is_completed db_goal)\<rparr>
            in case commit (DailyGoalModel_not_null db_goal') db of
                 Some e \<Rightarrow>
                   (Inl (HTTPException 500 (''Failed to update daily goal: '' @ str_exc e)), db)
               | None \<Rightarrow>
                   (Inr db_goal',
                    db\<lparr>daily_goals :=
                      map (\<lambda>g. if DailyGoalModel.id g = goal_id then db_goal' else g)
                        (daily_goals db)\<rparr>))"

definition delete_daily_goal ::
  "int \<Rightarrow> Session \<Rightarrow> UserModel \<Rightarrow> (HTTPException + (string \<times> json) list) \<times> Session" where
  "delete_daily_goal goal_id db current_user =
     (case find (\<lambda>g. DailyGoalModel.id g = goal_id) (daily_goals db) of
        None \<Rightarrow>
          (Inl (HTTPException 404 (''Daily goal with id '' @ str_int goal_id @ '' not found'')),
           db)
      | Some db_goal \<Rightarrow>
          if DailyGoalModel.user_id db_goal \<noteq> UserModel.id current_user
             \<and> UserModel.role current_user \<noteq> Some (UserRole_value ADMIN)
          then (Inl (HTTPException 403 ''Not authorized to delete this daily goal''), db)
          else
            case commit True db of
              Some e \<Rightarrow>
                (Inl (HTTPException 500 (''Failed to delete daily goal: '' @ str_exc e)), db)
            | None \<Rightarrow>
                (Inr [(''message'',
                       JStr (''Daily goal with id '' @ str_int goal_id
                             @ '' has been permanently deleted''))],
                 db\<lparr>daily_goals :=
                   filter (\<lambda>g. DailyGoalModel.id g \<noteq> goal_id) (daily_goals db)\<rparr>))"

text \<open>
  \<^verbatim>\<open>get_daily_goals\<close>. \<^verbatim>\<open>limit: int = Query(20, ge=1, le=100)\<close> and
  \<^verbatim>\<open>offset: int = Query(0, ge=0)\<close>: an absent parameter takes the default, and a value
  outside the bounds is refused with status 422 before the body runs.
  \<^verbatim>\<open>.limit(limit).offset(offset)\<close> skips \<^verbatim>\<open>offset\<close> rows and keeps the next
  \<^verbatim>\<open>limit\<close>.
\<close>

definition get_daily_goals ::
  "Session \<Rightarrow> UserModel \<Rightarrow> date option \<Rightarrow> bool option \<Rightarrow> string option
     \<Rightarrow> int option \<Rightarrow> int option \<Rightarrow> HTTPException + DailyGoalModel list" where
  "get_daily_goals db current_user goal_date_param completed search limit_param offset_param =
     (let limit = (case limit_param of None \<Rightarrow> 20 | Some l \<Rightarrow> l);
          offset = (case offset_param of None \<Rightarrow> 0 | Some k \<Rightarrow> k)
      in if limit < 1 \<or> 100 < limit \<or> offset < 0
         then Inl (HTTPException 422 ''Invalid request data'')
         else
           case query_fault db of
             Some e \<Rightarrow>
               Inl (HTTPException 500 (''Failed to fetch daily goals: '' @ str_exc e))
           | None \<Rightarrow>
               let query = filter (\<lambda>g. DailyGoalModel.user_id g = UserModel.id current_user)
                             (daily_goals db);
                   query = (case goal_date_param of
                              None \<Rightarrow> query
                            | Some d \<Rightarrow>
                                filter (\<lambda>g. DailyGoalModel.goal_date g = Some d) query);
                   query = (case completed of
                              None \<Rightarrow> query
                            | Some c \<Rightarrow>
                                filter (\<lambda>g. DailyGoalModel.is_completed g = Some c) query);
                   query = (case search of
                              None \<Rightarrow> query
                            | Some s \<Rightarrow>
                                if s = [] then query
                                else filter
                                  (\<lambda>g. column_ilike (DailyGoalModel.title g) (search_term s)
                                     \<or> column_ilike (DailyGoalModel.description g)
                                          (search_term s)) query)
               in Inr (take (nat limit)
                         (drop (nat offset)
                            (sort_key (\<lambda>g. - DailyGoalModel.created_at g) query))))"

section \<open>controllers/users.py\<close>

text \<open>
  The handlers of \<^verbatim>\<open>create_user\<close> for an exception of the outer \<^verbatim>\<open>try\<close>, in the
  order of its \<^verbatim>\<open>except\<close> clauses. Each returns a \<^verbatim>\<open>dict\<close> (after
  \<^verbatim>\<open>db.rollback()\<close>); none raises.
\<close>

fun registration_error :: "py_exception \<Rightarrow> (string \<times> json) list" where
  "registration_error (ProgrammingError error_msg) =
     (if str_in ''role'' (lower error_msg) \<or> str_in ''column'' (lower error_msg)
      then [(''error'', JStr ''Database schema error''),
            (''message'', JStr (''The 'role' column is missing from the users table. ''
               @ ''Please run the migration script.'')),
            (''backend_error'', JStr error_msg),
            (''error_type'', JStr ''ProgrammingError''),
            (''fix_instruction'', JStr ''Run: python fix_role_column.py'')]
      else [(''error'', JStr ''Database schema error''),
            (''message'', JStr (''Database schema issue detected: '' @ error_msg)),
            (''backend_error'', JStr error_msg),
            (''error_type'', JStr ''ProgrammingError'')])"
| "registration_error (IntegrityError error_msg) =
     (if str_in ''username'' (lower error_msg)
      then [(''error'', JStr ''Username already exists''),
            (''message'', JStr ''A user with this username already exists.''),
            (''backend_error'', JStr error_msg)]
      else if str_in ''email'' (lower error_msg)
      then [(''error'', JStr ''Email already exists''),
            (''message'', JStr ''A user with this email already exists.''),
            (''backend_error'', JStr error_msg)]
      else [(''error'', JStr ''Database constraint error''),
            (''message'',
             JStr ''Registration failed due to a database constraint violation.''),
            (''backend_error'', JStr error_msg),
            (''error_type'', JStr ''IntegrityError'')])"
| "registration_error (SQLAlchemyError error_type error_msg) =
     [(''error'', JStr ''Database error''),
      (''message'',
       JStr ''Registration failed due to a database error. Please try again later.''),
      (''backend_error'', JStr error_msg),
      (''error_type'', JStr error_type)]"
| "registration_error (PyException error_type error_msg) =
     [(''error'', JStr ''Registration failed''),
      (''message'', JStr (''An unexpected error occurred: '' @ error_msg)),
      (''backend_error'', JStr error_msg),
      (''error_type'', JStr error_type)]"

text \<open>
  \<^verbatim>\<open>create_user\<close>. A \<^verbatim>\<open>ProgrammingError\<close> of the first query is caught by the
  inner \<^verbatim>\<open>try\<close>; any other exception of the query, and every exception of
  \<^verbatim>\<open>db.add\<close>, \<^verbatim>\<open>db.commit\<close> and \<^verbatim>\<open>db.refresh\<close>, reaches the outer clauses.
  \<^verbatim>\<open>user.role\<close> is a \<^verbatim>\<open>str\<close> or \<^verbatim>\<open>None\<close>, so of the role branches only
  \<^verbatim>\<open>user.role.upper()\<close> and the default are reachable.
\<close>

definition create_user ::
  "environment \<Rightarrow> UserSchema \<Rightarrow> Session \<Rightarrow> (string \<times> json) list \<times> Session" where
  "create_user env user db =
     (case query_fault db of
        Some (ProgrammingError error_msg) \<Rightarrow>
          ([(''error'', JStr ''Database schema error''),
            (''message'', JStr (''The 'role' column is missing from the users table. ''
               @ ''Please run the migration script: python fix_role_column.py'')),
            (''backend_error'', JStr error_msg),
            (''fix_instruction'', JStr ''Run: python fix_role_column.py'')], db)
      | Some e \<Rightarrow> (registration_error e, db)
      | None \<Rightarrow>
          (case find (\<lambda>u. UserModel.username u = UserSchema.username user
                          \<or> UserModel.email u = UserSchema.email user) (users db) of
             Some existing_user \<Rightarrow>
               if UserModel.username existing_user = UserSchema.username user
               then ([(''error'', JStr ''Username already exists''),
                      (''message'', JStr (''A user with this username already exists. ''
                         @ ''Please choose a different username.''))], db)
               else ([(''error'', JStr ''Email already exists''),
                      (''message'', JStr (''A user with this email already exists. ''
                         @ ''Please use a different email.''))], db)
           | None \<Rightarrow>
               let user_role =
                     (case UserSchema.role user of
                        None \<Rightarrow> UserRole_value CUSTOMER
                      | Some r \<Rightarrow> if r = [] then UserRole_value CUSTOMER else upper r);
                   new_user = set_password env
                     \<lparr>UserModel.id = next_id (map UserModel.id (users db)),
                      UserModel.username = UserSchema.username user,
                      UserModel.email = UserSchema.email user,
                      UserModel.password_hash = None,
                      UserModel.role = Some user_role\<rparr>
                     (UserSchema.password user)
               in case commit_fault db of
                    Some e \<Rightarrow> (registration_error e, db)
                  | None \<Rightarrow>
                      let token =
                            (case generate_token env new_user of
                               Inl token_err \<Rightarrow> None
                             | Inr t \<Rightarrow> Some t);
                          response_data =
                            [(''message'', JStr ''User created successfully''),
                             (''id'', JInt (UserModel.id new_user)),
                             (''username'', JStr (UserModel.username new_user)),
                             (''email'', JStr (UserModel.email new_user)),
                             (''role'', JStr (or_default (UserModel.role new_user) ''CUSTOMER''))]
                      in ((case token of
                             None \<Rightarrow> response_data
                           | Some t \<Rightarrow> response_data @ [(''token'', JToken t)]),
                          db\<lparr>users := users db @ [new_user]\<rparr>)))"

text \<open>
  \<^verbatim>\<open>login\<close>. The \<^verbatim>\<open>HTTPException\<close> with status 401 is re-raised as it is; any
  other exception inside the \<^verbatim>\<open>try\<close> (of the query, of \<^verbatim>\<open>verify_password\<close>, of
  \<^verbatim>\<open>generate_token\<close>) becomes status 500.
\<close>

definition login ::
  "environment \<Rightarrow> UserLogin \<Rightarrow> Session \<Rightarrow> HTTPException + (string \<times> json) list" where
  "login env user db =
     (case query_fault db of
        Some e \<Rightarrow> Inl (HTTPException 500 ''Login failed due to an internal error'')
      | None \<Rightarrow>
          (case find (\<lambda>u. UserModel.username u = UserLogin.username user) (users db) of
             None \<Rightarrow> Inl (HTTPException 401 ''Invalid username or password'')
           | Some db_user \<Rightarrow>
               (case verify_password db_user (UserLogin.password user) of
                  Inl e \<Rightarrow> Inl (HTTPException 500 ''Login failed due to an internal error'')
                | Inr False \<Rightarrow> Inl (HTTPException 401 ''Invalid username or password'')
                | Inr True \<Rightarrow>
                    (case generate_token env db_user of
                       Inl e \<Rightarrow>
                         Inl (HTTPException 500 ''Login failed due to an internal error'')
                     | Inr token \<Rightarrow>
                         Inr [(''token'', JToken token),
                              (''message'', JStr ''Login successful''),
                              (''role'',
                               JStr (or_default (UserModel.role db_user)
                                       (UserRole_value CUSTOMER)))]))))"

section \<open>main.py: the routes\<close>

text \<open>
  The routes that each controller registers on its router, in the order of the
  decorators: method, path below the router's prefix, and the name of the handler.
\<close>

datatype http_method = GET | POST | PUT | DELETE

type_synonym route = "http_method \<times> string \<times> string"

definition users_router :: "route list" where
  "users_router =
     [(POST, ''/register'', ''create_user''),
      (POST, ''/login'', ''login'')]"

definition tasks_router :: "route list" where
  "tasks_router =
     [(POST, ''/'', ''create_task''),
      (GET, ''/'', ''get_tasks''),
      (GET, ''/{task_id}'', ''get_single_task''),
      (PUT, ''/{task_id}'', ''update_task''),
      (DELETE, ''/{task_id}'', ''delete_task''),
      (GET, ''/admin/all'', ''get_all_tasks_admin'')]"

definition habits_router :: "route list" where
  "habits_router =
     [(POST, ''/'', ''create_habit''),
      (GET, ''/my'', ''get_my_habits''),
      (GET, ''/admin/all'', ''get_all_habits_admin''),
      (GET, ''/{habit_id}'', ''get_habit''),
      (PUT, ''/{habit_id}'', ''update_habit''),
      (DELETE, ''/{habit_id}'', ''delete_habit''),
      (GET, ''/stats/my'', ''get_habit_stats'')]"

definition notes_router :: "route list" where
  "notes_router =
     [(POST, ''/notes'', ''create_note''),
      (GET, ''/notes'', ''get_user_notes''),
      (GET, ''/notes/{note_id}'', ''get_note''),
      (PUT, ''/notes/{note_id}'', ''update_note''),
      (DELETE, ''/notes/{note_id}'', ''delete_note'')]"

definition daily_goals_router :: "route list" where
  "daily_goals_router =
     [(GET, ''/daily-goals'', ''get_daily_goals''),
      (GET, ''/daily-goals/{goal_id}'', ''get_daily_goal''),
      (POST, ''/daily-goals'', ''create_daily_goal''),
      (PUT, ''/daily-goals/{goal_id}'', ''update_daily_goal''),
      (DELETE, ''/daily-goals/{goal_id}'', ''delete_daily_goal''),
      (GET, ''/users/{user_id}/daily-goals'', ''get_user_daily_goals''),
      (GET, ''/admin/daily-goals'', ''get_all_daily_goals_admin'')]"

text \<open>
  The single-item routes of a router (read, update or delete of the entity whose id
  ends the path), by the names of their handlers.
\<close>

fun single_item_route :: "route \<Rightarrow> bool" where
  "single_item_route (m, path, handler) =
     ((m = GET \<or> m = PUT \<or> m = DELETE) \<and> path \<noteq> [] \<and> last path = CHR ''}'')"

definition single_item_handlers :: "route list \<Rightarrow> string list" where
  "single_item_handlers router = map (\<lambda>r. snd (snd r)) (filter single_item_route router)"

section \<open>The rules that the specification names\<close>

text \<open>
  The access rule in the specification's words: \<open>authorize\<close> allows the actor iff its
  role is ADMIN or it owns the resource; a single-item operation first looks the entity
  up (not found when there is none) and then asks \<open>authorize\<close> with the entity's owner.
  \<open>outcome\<close> reads the same three cases off what a handler returned or raised: status
  404, status 403, and everything else, where the handler went on to its operation.
\<close>

datatype access = NotFound | Forbidden | Proceeds

definition authorize :: "UserModel \<Rightarrow> int \<Rightarrow> bool" where
  "authorize actor resource_owner_id =
     (UserModel.role actor = Some (UserRole_value ADMIN)
      \<or> UserModel.id actor = resource_owner_id)"

fun single_item_rule :: "UserModel \<Rightarrow> int option \<Rightarrow> access" where
  "single_item_rule actor None = NotFound"
| "single_item_rule actor (Some owner_id) =
     (if authorize actor owner_id then Proceeds else Forbidden)"

fun outcome :: "HTTPException + 'a \<Rightarrow> access" where
  "outcome (Inl e) =
     (if status_code e = 404 then NotFound
      else if status_code e = 403 then Forbidden
      else Proceeds)"
| "outcome (Inr x) = Proceeds"

text \<open>The habit invariant in the specification's words: completed\_at is set iff is\_completed is true.\<close>

definition completed_at_iff_completed :: "HabitModel \<Rightarrow> bool" where
  "completed_at_iff_completed h =
     (HabitModel.completed_at h \<noteq> None \<longleftrightarrow> HabitModel.is_completed h = Some True)"

text \<open>
  Modelled from the spec: the verification of a token, whose code
  (\<^verbatim>\<open>dependencies/get_current_user.py\<close>) is not among the sources. The specification
  (4.2) says: verify fails with Invalid if the signature does not verify, fails with
  Expired if the current time is at or after the expiry claim, and otherwise gives the
  subject id and the role. The time is in whole seconds, as the claims are.
\<close>

datatype AuthError = Expired | Invalid

definition verify_token :: "string \<Rightarrow> int \<Rightarrow> jwt \<Rightarrow> AuthError + string \<times> string" where
  "verify_token key current_time token =
     (if jwt.signing_key token \<noteq> key then Inl Invalid
      else if jwt_payload.exp (jwt.payload token) \<le> current_time then Inl Expired
      else Inr (jwt_payload.sub (jwt.payload token), jwt_payload.role (jwt.payload token)))"

text \<open>
  The databases that the handlers can produce: from a database without habits, by any
  sequence of calls of the handlers that write, by any users and at any times, with the
  storage layer failing or not in any of them.
\<close>

inductive reachable :: "Session \<Rightarrow> bool" where
  no_habits: "habits db = [] \<Longrightarrow> reachable db"
| faults: "reachable db \<Longrightarrow> reachable (db\<lparr>query_fault := q, commit_fault := c\<rparr>)"
| create_user: "reachable db \<Longrightarrow> reachable (snd (create_user env user db))"
| create_task: "reachable db \<Longrightarrow> reachable (snd (create_task task db actor now))"
| update_task: "reachable db \<Longrightarrow> reachable (snd (update_task i task_update db actor))"
| delete_task: "reachable db \<Longrightarrow> reachable (snd (delete_task i db actor))"
| create_habit: "reachable db \<Longrightarrow> reachable (snd (create_habit habit db actor now))"
| update_habit: "reachable db \<Longrightarrow> reachable (snd (update_habit i habit_update db actor now))"
| delete_habit: "reachable db \<Longrightarrow> reachable (snd (delete_habit i db actor))"
| create_note: "reachable db \<Longrightarrow> reachable (snd (create_note note db actor now))"
| update_note: "reachable db \<Longrightarrow> reachable (snd (update_note i note_update db actor))"
| delete_note: "reachable db \<Longrightarrow> reachable (snd (delete_note i db actor))"
| create_daily_goal: "reachable db \<Longrightarrow> reachable (snd (create_daily_goal goal db actor now))"
| update_daily_goal: "reachable db \<Longrightarrow> reachable (snd (update_daily_goal i goal_update db actor))"
| delete_daily_goal: "reachable db \<Longrightarrow> reachable (snd (delete_daily_goal i db actor))"

text \<open>
  Partial update in the specification's words: a supplied field takes the supplied value,
  an unsupplied field keeps its prior value.
\<close>

fun partial_update :: "'a supplied \<Rightarrow> 'a \<Rightarrow> 'a \<Rightarrow> bool" where
  "partial_update Unset prior after = (after = prior)"
| "partial_update (Supplied v) prior after = (after = v)"

text \<open>
  The Conflict outcome of a registration, which the handler returns as a \<^verbatim>\<open>dict\<close>
  whose \<^verbatim>\<open>error\<close> entry names the duplicate field.
\<close>

definition conflict :: "(string \<times> json) list \<Rightarrow> bool" where
  "conflict response =
     (map_of response ''error'' = Some (JStr ''Username already exists'')
      \<or> map_of response ''error'' = Some (JStr ''Email already exists''))"

text \<open>
  The rules of an owner-scoped list in the specification's words: newest first by
  creation time; a status or date filter is an exact match; the free-text search keeps
  an entity when the term occurs, without regard to case, in one of the searched columns
  (an empty term searches nothing). \<open>plain_search\<close> holds of a term without a character
  that \<^verbatim>\<open>LIKE\<close> reads as a wildcard or an escape.
\<close>

definition newest_first :: "datetime list \<Rightarrow> bool" where
  "newest_first ds = sorted_wrt (\<lambda>a b. b \<le> a) ds"

fun exact_match :: "'a option \<Rightarrow> 'a option \<Rightarrow> bool" where
  "exact_match None column = True"
| "exact_match (Some v) column = (column = Some v)"

fun contains_ci :: "string \<Rightarrow> string option \<Rightarrow> bool" where
  "contains_ci s None = False"
| "contains_ci s (Some text) = sublist (lower s) (lower text)"

fun search_matches :: "string option \<Rightarrow> string option list \<Rightarrow> bool" where
  "search_matches None columns = True"
| "search_matches (Some s) columns = (s = [] \<or> list_ex (contains_ci s) columns)"

fun plain_search :: "string option \<Rightarrow> bool" where
  "plain_search None = True"
| "plain_search (Some s) = list_all (\<lambda>c. \<not> like_meta c) s"

section \<open>Example data\<close>

text \<open>The users and the empty database of the specification's end-to-end examples.\<close>

definition empty_session :: Session where
  "empty_session =
     \<lparr>users = [], tasks = [], habits = [], notes_table = [], daily_goals = [],
      query_fault = None, commit_fault = None\<rparr>"

definition alice :: UserModel where
  "alice =
     \<lparr>UserModel.id = 1, username = ''alice'', email = ''a@x.com'',
      password_hash = Some (Bcrypt ''salt'' ''pw1''), role = Some ''CUSTOMER''\<rparr>"

definition bob :: UserModel where
  "bob =
     \<lparr>UserModel.id = 2, username = ''bob'', email = ''b@x.com'',
      password_hash = Some (Bcrypt ''salt'' ''pw2''), role = Some ''CUSTOMER''\<rparr>"

definition carol :: UserModel where
  "carol =
     \<lparr>UserModel.id = 3, username = ''carol'', email = ''c@x.com'',
      password_hash = Some (Bcrypt ''salt'' ''pw3''), role = Some ''CUSTOMER''\<rparr>"

definition root :: UserModel where
  "root =
     \<lparr>UserModel.id = 4, username = ''root'', email = ''r@x.com'',
      password_hash = Some (Bcrypt ''salt'' ''pw4''), role = Some ''ADMIN''\<rparr>"

definition bobs_note :: NoteModel where
  "bobs_note =
     \<lparr>NoteModel.id = 1, user_id = 2, title = Some ''n1'', content = None,
      created_at = 1700000000000000\<rparr>"

definition bobs_session :: Session where
  "bobs_session =
     \<lparr>users = [alice, bob, carol, root], tasks = [], habits = [], notes_table = [bobs_note],
      daily_goals = [], query_fault = None, commit_fault = None\<rparr>"

definition alices_habit :: HabitModel where
  "alices_habit =
     \<lparr>HabitModel.id = 1, user_id = 1, title = Some ''run'', description = None,
      completed_at = None, is_completed = Some False, created_at = 1700000000000000\<rparr>"

definition alices_session :: Session where
  "alices_session =
     \<lparr>users = [alice], tasks = [], habits = [alices_habit], notes_table = [],
      daily_goals = [], query_fault = None, commit_fault = None\<rparr>"

definition mark_completed :: HabitUpdate where
  "mark_completed =
     \<lparr>HabitUpdate.title = Unset, description = Unset, is_completed = Supplied (Some True)\<rparr>"

definition alices_task :: TaskModel where
  "alices_task =
     \<lparr>TaskModel.id = 1, title = Some ''t1'', description = Some ''d1'',
      due_date = Some 1700086400000000, is_completed = Some False,
      created_at = 1700000000000000, user_id = 1\<rparr>"

definition title_only :: TaskUpdate where
  "title_only =
     \<lparr>TaskUpdate.title = Supplied (Some ''t2''), description = Unset, due_date = Unset,
      is_completed = Unset\<rparr>"

definition env0 :: environment where
  "env0 =
     \<lparr>secret = ''your-secret-key-change-in-production'',
      now_exp = 1700000000250000, now_iat = 1700000000250001,
      jwt_encode_fault = None, bcrypt_salt = ''salt''\<rparr>"

text \<open>Two readings of the clock one microsecond apart, on either side of a full second.\<close>

definition env_across_second :: environment where
  "env_across_second = env0\<lparr>now_exp := 1700000000999999, now_iat := 1700000001000000\<rparr>"

text \<open>The text of psycopg2 for a violated unique constraint.\<close>

definition duplicate_username_message :: string where
  "duplicate_username_message =
     ''duplicate key value violates unique constraint \"users_username_key\" ''
     @ ''DETAIL:  Key (username)=(alice) already exists.''"

definition milk_task :: TaskModel where
  "milk_task =
     \<lparr>TaskModel.id = 1, title = Some ''Buy milk'', description = Some ''today'',
      due_date = None, is_completed = Some False, created_at = 1700000000000000,
      user_id = 1\<rparr>"

definition book_task :: TaskModel where
  "book_task =
     \<lparr>TaskModel.id = 2, title = Some ''Read'', description = Some ''a book'',
      due_date = None, is_completed = Some True, created_at = 1700000100000000,
      user_id = 1\<rparr>"

definition bread_task :: TaskModel where
  "bread_task =
     \<lparr>TaskModel.id = 3, title = Some ''buy bread'', description = Some '''',
      due_date = None, is_completed = Some False, created_at = 1700000200000000,
      user_id = 2\<rparr>"

definition task_session :: Session where
  "task_session = empty_session\<lparr>tasks := [milk_task, book_task, bread_task]\<rparr>"

text \<open>A database in which one user owns 101 tasks.\<close>

definition many_tasks :: Session where
  "many_tasks =
     empty_session
       \<lparr>tasks := map (\<lambda>k. milk_task\<lparr>TaskModel.id := int k, TaskModel.created_at := int k\<rparr>)
                   [0..<101]\<rparr>"

section \<open>Creation\<close>

text \<open>
  Claim C6. Every call of \<^verbatim>\<open>create_task\<close>, \<^verbatim>\<open>create_habit\<close> and
  \<^verbatim>\<open>create_daily_goal\<close> that returns an entity returns one whose
  \<^verbatim>\<open>is_completed\<close> is \<^verbatim>\<open>False\<close> and whose \<^verbatim>\<open>user_id\<close> is the id of the
  authenticated user, and appends exactly that row to the table; the create schemas have
  no field for either attribute, so no value of the caller reaches them. The call fails
  (with status 500 and no change to the database) only when the storage layer fails.
\<close>

theorem create_forces_not_completed_and_owner:
  "(case create_task task db current_user now of
      (Inr t, db') \<Rightarrow>
        TaskModel.is_completed t = Some False
        \<and> TaskModel.user_id t = UserModel.id current_user
        \<and> tasks db' = tasks db @ [t] \<and> commit_fault db = None
    | (Inl e, db') \<Rightarrow> commit_fault db \<noteq> None \<and> db' = db)
   \<and> (case create_habit habit db current_user now of
      (Inr h, db') \<Rightarrow>
        HabitModel.is_completed h = Some False
        \<and> HabitModel.user_id h = UserModel.id current_user
        \<and> habits db' = habits db @ [h] \<and> commit_fault db = None
    | (Inl e, db') \<Rightarrow> commit_fault db \<noteq> None \<and> db' = db)
   \<and> (case create_daily_goal goal db current_user now of
      (Inr g, db') \<Rightarrow>
        DailyGoalModel.is_completed g = Some False
        \<and> DailyGoalModel.user_id g = UserModel.id current_user
        \<and> daily_goals db' = daily_goals db @ [g] \<and> commit_fault db = None
    | (Inl e, db') \<Rightarrow> commit_fault db \<noteq> None \<and> db' = db)"
  by (simp add: create_task_def create_habit_def create_daily_goal_def commit_def
      TaskModel_not_null_def HabitModel_not_null_def DailyGoalModel_not_null_def Let_def
      split: option.split)

theorem create_forces_not_completed_and_owner_witness:
  "fst (create_task \<lparr>TaskCreate.title = ''t1'', description = ''d1'', due_date = None\<rparr>
          empty_session alice 1700000000000000)
     = Inr \<lparr>TaskModel.id = 1, title = Some ''t1'', description = Some ''d1'', due_date = None,
            is_completed = Some False, created_at = 1700000000000000, user_id = 1\<rparr>"
  using create_forces_not_completed_and_owner
    [where task = "\<lparr>TaskCreate.title = ''t1'', description = ''d1'', due_date = None\<rparr>"
       and db = empty_session and current_user = alice and now = 1700000000000000]
  by (simp add: create_task_def commit_def TaskModel_not_null_def Let_def next_id_def
      empty_session_def alice_def)

section \<open>Access control\<close>

lemma task_access:
  "outcome (get_single_task i db actor)
     = single_item_rule actor (map_option TaskModel.user_id (find (\<lambda>t. TaskModel.id t = i) (tasks db)))"
  "outcome (fst (update_task i u db actor))
     = single_item_rule actor (map_option TaskModel.user_id (find (\<lambda>t. TaskModel.id t = i) (tasks db)))"
  "outcome (fst (delete_task i db actor))
     = single_item_rule actor (map_option TaskModel.user_id (find (\<lambda>t. TaskModel.id t = i) (tasks db)))"
  by (auto simp: get_single_task_def update_task_def delete_task_def authorize_def Let_def
      split: option.split)

lemma habit_access:
  "outcome (get_habit i db actor)
     = single_item_rule actor (map_option HabitModel.user_id (find (\<lambda>h. HabitModel.id h = i) (habits db)))"
  "outcome (fst (update_habit i u db actor now))
     = single_item_rule actor (map_option HabitModel.user_id (find (\<lambda>h. HabitModel.id h = i) (habits db)))"
  "outcome (fst (delete_habit i db actor))
     = single_item_rule actor (map_option HabitModel.user_id (find (\<lambda>h. HabitModel.id h = i) (habits db)))"
  by (auto simp: get_habit_def update_habit_def delete_habit_def authorize_def Let_def
      split: option.split)

lemma note_access:
  "outcome (get_note i db actor)
     = single_item_rule actor (map_option NoteModel.user_id (find (\<lambda>n. NoteModel.id n = i) (notes_table db)))"
  "outcome (fst (update_note i u db actor))
     = single_item_rule actor (map_option NoteModel.user_id (find (\<lambda>n. NoteModel.id n = i) (notes_table db)))"
  "outcome (fst (delete_note i db actor))
     = single_item_rule actor (map_option NoteModel.user_id (find (\<lambda>n. NoteModel.id n = i) (notes_table db)))"
  by (auto simp: get_note_def update_note_def delete_note_def authorize_def Let_def
      split: option.split)

lemma daily_goal_access:
  "outcome (get_daily_goal i db actor)
     = single_item_rule actor (map_option DailyGoalModel.user_id (find (\<lambda>g. DailyGoalModel.id g = i) (daily_goals db)))"
  "outcome (fst (update_daily_goal i u db actor))
     = single_item_rule actor (map_option DailyGoalModel.user_id (find (\<lambda>g. DailyGoalModel.id g = i) (daily_goals db)))"
  "outcome (fst (delete_daily_goal i db actor))
     = single_item_rule actor (map_option DailyGoalModel.user_id (find (\<lambda>g. DailyGoalModel.id g = i) (daily_goals db)))"
  by (auto simp: get_daily_goal_def update_daily_goal_def delete_daily_goal_def authorize_def
      Let_def split: option.split)

lemma get_returns_entity:
  "find (\<lambda>t. TaskModel.id t = i) (tasks db) = Some t \<Longrightarrow> authorize actor (TaskModel.user_id t)
     \<Longrightarrow> get_single_task i db actor = Inr t"
  "find (\<lambda>h. HabitModel.id h = i) (habits db) = Some h \<Longrightarrow> authorize actor (HabitModel.user_id h)
     \<Longrightarrow> get_habit i db actor = Inr h"
  "find (\<lambda>n. NoteModel.id n = i) (notes_table db) = Some n \<Longrightarrow> authorize actor (NoteModel.user_id n)
     \<Longrightarrow> get_note i db actor = Inr n"
  "find (\<lambda>g. DailyGoalModel.id g = i) (daily_goals db) = Some g
     \<Longrightarrow> authorize actor (DailyGoalModel.user_id g) \<Longrightarrow> get_daily_goal i db actor = Inr g"
  by (auto simp: get_single_task_def get_habit_def get_note_def get_daily_goal_def authorize_def)

lemma refused_changes_nothing:
  "outcome (fst (update_task i ut db actor)) \<noteq> Proceeds \<Longrightarrow> snd (update_task i ut db actor) = db"
  "outcome (fst (delete_task i db actor)) \<noteq> Proceeds \<Longrightarrow> snd (delete_task i db actor) = db"
  "outcome (fst (update_habit i uh db actor now)) \<noteq> Proceeds
     \<Longrightarrow> snd (update_habit i uh db actor now) = db"
  "outcome (fst (delete_habit i db actor)) \<noteq> Proceeds \<Longrightarrow> snd (delete_habit i db actor) = db"
  "outcome (fst (update_note i un db actor)) \<noteq> Proceeds \<Longrightarrow> snd (update_note i un db actor) = db"
  "outcome (fst (delete_note i db actor)) \<noteq> Proceeds \<Longrightarrow> snd (delete_note i db actor) = db"
  "outcome (fst (update_daily_goal i ug db actor)) \<noteq> Proceeds
     \<Longrightarrow> snd (update_daily_goal i ug db actor) = db"
  "outcome (fst (delete_daily_goal i db actor)) \<noteq> Proceeds
     \<Longrightarrow> snd (delete_daily_goal i db actor) = db"
  by (auto simp: update_task_def delete_task_def update_habit_def delete_habit_def
      update_note_def delete_note_def update_daily_goal_def delete_daily_goal_def Let_def
      split: option.splits if_splits)

lemma routers_single_item:
  "single_item_handlers tasks_router = [''get_single_task'', ''update_task'', ''delete_task'']"
  "single_item_handlers habits_router = [''get_habit'', ''update_habit'', ''delete_habit'']"
  "single_item_handlers notes_router = [''get_note'', ''update_note'', ''delete_note'']"
  "single_item_handlers daily_goals_router
     = [''get_daily_goal'', ''update_daily_goal'', ''delete_daily_goal'']"
  by (simp_all add: single_item_handlers_def tasks_router_def habits_router_def
      notes_router_def daily_goals_router_def)

text \<open>
  Claim C1, as amended. The routers of the four owned resources (tasks, habits, notes,
  daily goals) register exactly three single-item handlers each, and each of the twelve
  decides by the same rule, existence before permission: status 404 when no entity has
  the id, whoever asks; status 403 when the entity exists and the actor is neither ADMIN
  nor its owner; otherwise the handler goes on to its operation, and a read returns the
  entity. (The users router registers no single-item route: the next theorem.)
\<close>

theorem single_item_access_rule:
  "single_item_handlers tasks_router = [''get_single_task'', ''update_task'', ''delete_task'']
   \<and> single_item_handlers habits_router = [''get_habit'', ''update_habit'', ''delete_habit'']
   \<and> single_item_handlers notes_router = [''get_note'', ''update_note'', ''delete_note'']
   \<and> single_item_handlers daily_goals_router
       = [''get_daily_goal'', ''update_daily_goal'', ''delete_daily_goal'']
   \<and> outcome (get_single_task i db actor)
       = single_item_rule actor
           (map_option TaskModel.user_id (find (\<lambda>t. TaskModel.id t = i) (tasks db)))
   \<and> outcome (fst (update_task i ut db actor))
       = single_item_rule actor
           (map_option TaskModel.user_id (find (\<lambda>t. TaskModel.id t = i) (tasks db)))
   \<and> outcome (fst (delete_task i db actor))
       = single_item_rule actor
           (map_option TaskModel.user_id (find (\<lambda>t. TaskModel.id t = i) (tasks db)))
   \<and> outcome (get_habit i db actor)
       = single_item_rule actor
           (map_option HabitModel.user_id (find (\<lambda>h. HabitModel.id h = i) (habits db)))
   \<and> outcome (fst (update_habit i uh db actor now))
       = single_item_rule actor
           (map_option HabitModel.user_id (find (\<lambda>h. HabitModel.id h = i) (habits db)))
   \<and> outcome (fst (delete_habit i db actor))
       = single_item_rule actor
           (map_option HabitModel.user_id (find (\<lambda>h. HabitModel.id h = i) (habits db)))
   \<and> outcome (get_note i db actor)
       = single_item_rule actor
           (map_option NoteModel.user_id (find (\<lambda>n. NoteModel.id n = i) (notes_table db)))
   \<and> outcome (fst (update_note i un db actor))
       = single_item_rule actor
           (map_option NoteModel.user_id (find (\<lambda>n. NoteModel.id n = i) (notes_table db)))
   \<and> outcome (fst (delete_note i db actor))
       = single_item_rule actor
           (map_option NoteModel.user_id (find (\<lambda>n. NoteModel.id n = i) (notes_table db)))
   \<and> outcome (get_daily_goal i db actor)
       = single_item_rule actor
           (map_option DailyGoalModel.user_id
              (find (\<lambda>g. DailyGoalModel.id g = i) (daily_goals db)))
   \<and> outcome (fst (update_daily_goal i ug db actor))
       = single_item_rule actor
           (map_option DailyGoalModel.user_id
              (find (\<lambda>g. DailyGoalModel.id g = i) (daily_goals db)))
   \<and> outcome (fst (delete_daily_goal i db actor))
       = single_item_rule actor
           (map_option DailyGoalModel.user_id
              (find (\<lambda>g. DailyGoalModel.id g = i) (daily_goals db)))
   \<and> (find (\<lambda>t. TaskModel.id t = i) (tasks db) = Some t
        \<and> authorize actor (TaskModel.user_id t) \<longrightarrow> get_single_task i db actor = Inr t)
   \<and> (find (\<lambda>h. HabitModel.id h = i) (habits db) = Some h
        \<and> authorize actor (HabitModel.user_id h) \<longrightarrow> get_habit i db actor = Inr h)
   \<and> (find (\<lambda>n. NoteModel.id n = i) (notes_table db) = Some n
        \<and> authorize actor (NoteModel.user_id n) \<longrightarrow> get_note i db actor = Inr n)
   \<and> (find (\<lambda>g. DailyGoalModel.id g = i) (daily_goals db) = Some g
        \<and> authorize actor (DailyGoalModel.user_id g) \<longrightarrow> get_daily_goal i db actor = Inr g)"
  by (auto simp: routers_single_item task_access habit_access note_access daily_goal_access
      intro: get_returns_entity)

theorem single_item_access_rule_witness:
  "get_note 1 bobs_session carol
     = Inl (HTTPException 403 ''You can only view your own notes'')
   \<and> get_note 1 bobs_session root = Inr bobs_note
   \<and> outcome (get_note 7 bobs_session root) = NotFound"
  using single_item_access_rule [where i = 1 and db = bobs_session and actor = carol]
    single_item_access_rule
      [where i = 1 and db = bobs_session and actor = root and n = bobs_note]
    single_item_access_rule [where i = 7 and db = bobs_session and actor = root]
  by (simp add: get_note_def bobs_session_def bobs_note_def carol_def root_def
      authorize_def)

text \<open>
  Claim C1 as it stands speaks of five resource types. The users router registers only
  \<^verbatim>\<open>POST /register\<close> and \<^verbatim>\<open>POST /login\<close>: a user has no single-item read,
  update or delete to which the rule could apply.
\<close>

theorem users_router_has_no_single_item_route:
  "single_item_handlers users_router = []"
  by (simp add: single_item_handlers_def users_router_def)

section \<open>The completion time of a habit\<close>

lemma other_handlers_keep_habits:
  "habits (snd (create_user env user db)) = habits db"
  "habits (snd (create_task task db actor now)) = habits db"
  "habits (snd (update_task i task_update db actor)) = habits db"
  "habits (snd (delete_task i db actor)) = habits db"
  "habits (snd (create_note note db actor now)) = habits db"
  "habits (snd (update_note i note_update db actor)) = habits db"
  "habits (snd (delete_note i db actor)) = habits db"
  "habits (snd (create_daily_goal goal db actor now)) = habits db"
  "habits (snd (update_daily_goal i goal_update db actor)) = habits db"
  "habits (snd (delete_daily_goal i db actor)) = habits db"
  by (simp_all add: create_user_def create_task_def update_task_def delete_task_def
      create_note_def update_note_def delete_note_def create_daily_goal_def
      update_daily_goal_def delete_daily_goal_def Let_def
      split: option.split py_exception.split)

lemma completed_at_update_sound:
  "completed_at_iff_completed h \<Longrightarrow>
   completed_at_iff_completed
     (h\<lparr>HabitModel.title := t, HabitModel.description := d,
        HabitModel.is_completed := setattr_if_supplied c (HabitModel.is_completed h),
        HabitModel.completed_at :=
          setattr_if_supplied (completed_at_update c now) (HabitModel.completed_at h)\<rparr>)"
  by (cases "(c, now)" rule: completed_at_update.cases)
     (auto simp: completed_at_iff_completed_def)

lemma create_habit_keeps_invariant:
  assumes "\<forall>h \<in> set (habits db). completed_at_iff_completed h"
  shows "\<forall>h \<in> set (habits (snd (create_habit habit db actor now))).
           completed_at_iff_completed h"
  using assms
  by (auto simp: create_habit_def Let_def completed_at_iff_completed_def split: option.split)

lemma update_habit_keeps_invariant:
  assumes "\<forall>h \<in> set (habits db). completed_at_iff_completed h"
  shows "\<forall>h \<in> set (habits (snd (update_habit i habit_update db actor now))).
           completed_at_iff_completed h"
proof (cases "find (\<lambda>h. HabitModel.id h = i) (habits db)")
  case None
  then show ?thesis using assms by (simp add: update_habit_def)
next
  case (Some habit)
  then have "habit \<in> set (habits db)"
    by (auto simp: find_Some_iff)
  then have "completed_at_iff_completed habit" using assms by blast
  from completed_at_update_sound[OF this] show ?thesis
    using assms Some
    by (auto simp: update_habit_def Let_def split: option.split)
qed

lemma delete_habit_keeps_invariant:
  assumes "\<forall>h \<in> set (habits db). completed_at_iff_completed h"
  shows "\<forall>h \<in> set (habits (snd (delete_habit i db actor))). completed_at_iff_completed h"
  using assms by (auto simp: delete_habit_def split: option.split)

lemma reachable_invariant:
  "reachable db \<Longrightarrow> \<forall>h \<in> set (habits db). completed_at_iff_completed h"
proof (induction rule: reachable.induct)
  case (no_habits db)
  then show ?case by simp
next
  case (faults db q c)
  then show ?case by simp
next
  case (create_habit db habit actor now)
  then show ?case using create_habit_keeps_invariant by blast
next
  case (update_habit db i habit_update actor now)
  then show ?case using update_habit_keeps_invariant by blast
next
  case (delete_habit db i actor)
  then show ?case using delete_habit_keeps_invariant by blast
qed (simp_all only: other_handlers_keep_habits)

lemma update_habit_result:
  assumes "update_habit i habit_update db actor now = (Inr habit', db')"
  shows "\<exists>habit. find (\<lambda>h. HabitModel.id h = i) (habits db) = Some habit
           \<and> HabitModel.is_completed habit'
               = setattr_if_supplied (HabitUpdate.is_completed habit_update)
                   (HabitModel.is_completed habit)
           \<and> HabitModel.completed_at habit'
               = setattr_if_supplied
                   (completed_at_update (HabitUpdate.is_completed habit_update) now)
                   (HabitModel.completed_at habit)
           \<and> habit' \<in> set (habits db')"
proof (cases "find (\<lambda>h. HabitModel.id h = i) (habits db)")
  case None
  then show ?thesis using assms by (simp add: update_habit_def)
next
  case (Some habit)
  then have "habit \<in> set (habits db)" "HabitModel.id habit = i"
    by (auto simp: find_Some_iff)
  then show ?thesis
    using assms Some
    by (auto simp: update_habit_def Let_def image_iff split: option.splits if_splits
        intro!: bexI[of _ habit])
qed

text \<open>
  Claim C4. In every database that the handlers can produce, every habit has
  \<^verbatim>\<open>completed_at\<close> set iff \<^verbatim>\<open>is_completed\<close> is true. A call of
  \<^verbatim>\<open>update_habit\<close> that sets \<^verbatim>\<open>is_completed\<close> to true stores the habit with
  \<^verbatim>\<open>completed_at\<close> at the current time, and one that sets it to false stores the
  habit with \<^verbatim>\<open>completed_at\<close> empty, in that same call. \<^verbatim>\<open>HabitUpdate\<close> has no
  \<^verbatim>\<open>completed_at\<close> field, so no value of the caller for it reaches the handler.
\<close>

theorem habit_completed_at_iff_completed:
  "(reachable db \<longrightarrow> (\<forall>h \<in> set (habits db). completed_at_iff_completed h))
   \<and> (update_habit i habit_update db actor now = (Inr habit', db')
        \<and> HabitUpdate.is_completed habit_update = Supplied (Some True)
      \<longrightarrow> HabitModel.is_completed habit' = Some True
          \<and> HabitModel.completed_at habit' = Some now
          \<and> habit' \<in> set (habits db'))
   \<and> (update_habit i habit_update db actor now = (Inr habit', db')
        \<and> HabitUpdate.is_completed habit_update = Supplied (Some False)
      \<longrightarrow> HabitModel.is_completed habit' = Some False
          \<and> HabitModel.completed_at habit' = None
          \<and> habit' \<in> set (habits db'))"
  using reachable_invariant[of db] update_habit_result[of i habit_update db actor now habit' db']
  by auto

theorem habit_completed_at_iff_completed_witness:
  "reachable alices_session
   \<and> completed_at_iff_completed alices_habit
   \<and> update_habit 1 mark_completed alices_session alice 1700000100000000
       = (Inr (alices_habit\<lparr>HabitModel.is_completed := Some True,
                            HabitModel.completed_at := Some 1700000100000000\<rparr>),
          alices_session\<lparr>habits :=
            [alices_habit\<lparr>HabitModel.is_completed := Some True,
                          HabitModel.completed_at := Some 1700000100000000\<rparr>]\<rparr>)"
proof -
  let ?new = "\<lparr>HabitCreate.title = ''run'', description = None\<rparr>"
  have made: "snd (create_habit ?new (alices_session\<lparr>habits := []\<rparr>) alice 1700000000000000)
                = alices_session"
    by (simp add: create_habit_def commit_def HabitModel_not_null_def Let_def next_id_def
        alices_session_def alices_habit_def alice_def)
  have "reachable (alices_session\<lparr>habits := []\<rparr>)"
    by (rule reachable.no_habits) simp
  then have "reachable (snd (create_habit ?new (alices_session\<lparr>habits := []\<rparr>) alice
                               1700000000000000))"
    by (rule reachable.create_habit)
  then have r: "reachable alices_session" by (simp only: made)
  have u: "update_habit 1 mark_completed alices_session alice 1700000100000000
       = (Inr (alices_habit\<lparr>HabitModel.is_completed := Some True,
                            HabitModel.completed_at := Some 1700000100000000\<rparr>),
          alices_session\<lparr>habits :=
            [alices_habit\<lparr>HabitModel.is_completed := Some True,
                          HabitModel.completed_at := Some 1700000100000000\<rparr>]\<rparr>)"
    by (simp add: update_habit_def commit_def HabitModel_not_null_def Let_def
        alices_session_def alices_habit_def alice_def mark_completed_def)
  have "completed_at_iff_completed alices_habit"
    using habit_completed_at_iff_completed[where db = alices_session] r
    by (simp add: alices_session_def)
  then show ?thesis using r u by simp
qed

section \<open>Partial update\<close>

lemma partial_update_setattr: "partial_update s prior (setattr_if_supplied s prior)"
  by (cases s) simp_all

lemma update_task_frame:
  assumes "update_task i u db actor = (Inr t', db')"
  shows "\<exists>t. find (\<lambda>x. TaskModel.id x = i) (tasks db) = Some t
           \<and> partial_update (TaskUpdate.title u) (TaskModel.title t) (TaskModel.title t')
           \<and> partial_update (TaskUpdate.description u) (TaskModel.description t)
               (TaskModel.description t')
           \<and> partial_update (TaskUpdate.due_date u) (TaskModel.due_date t)
               (TaskModel.due_date t')
           \<and> partial_update (TaskUpdate.is_completed u) (TaskModel.is_completed t)
               (TaskModel.is_completed t')
           \<and> TaskModel.id t' = TaskModel.id t
           \<and> TaskModel.created_at t' = TaskModel.created_at t
           \<and> TaskModel.user_id t' = TaskModel.user_id t
           \<and> db' = db\<lparr>tasks := map (\<lambda>x. if TaskModel.id x = i then t' else x) (tasks db)\<rparr>"
  using assms
  by (auto simp: update_task_def Let_def partial_update_setattr
      split: option.splits if_splits)

lemma update_note_frame:
  assumes "update_note i u db actor = (Inr n', db')"
  shows "\<exists>n. find (\<lambda>x. NoteModel.id x = i) (notes_table db) = Some n
           \<and> partial_update (NoteUpdate.title u) (NoteModel.title n) (NoteModel.title n')
           \<and> partial_update (NoteUpdate.content u) (NoteModel.content n) (NoteModel.content n')
           \<and> NoteModel.id n' = NoteModel.id n
           \<and> NoteModel.created_at n' = NoteModel.created_at n
           \<and> NoteModel.user_id n' = NoteModel.user_id n
           \<and> db' = db\<lparr>notes_table :=
                  map (\<lambda>x. if NoteModel.id x = i then n' else x) (notes_table db)\<rparr>"
  using assms
  by (auto simp: update_note_def Let_def partial_update_setattr
      split: option.splits if_splits)

lemma update_daily_goal_frame:
  assumes "update_daily_goal i u db actor = (Inr g', db')"
  shows "\<exists>g. find (\<lambda>x. DailyGoalModel.id x = i) (daily_goals db) = Some g
           \<and> partial_update (DailyGoalUpdate.title u) (DailyGoalModel.title g)
               (DailyGoalModel.title g')
           \<and> partial_update (DailyGoalUpdate.description u) (DailyGoalModel.description g)
               (DailyGoalModel.description g')
           \<and> partial_update (DailyGoalUpdate.goal_date u) (DailyGoalModel.goal_date g)
               (DailyGoalModel.goal_date g')
           \<and> partial_update (DailyGoalUpdate.is_completed u) (DailyGoalModel.is_completed g)
               (DailyGoalModel.is_completed g')
           \<and> DailyGoalModel.id g' = DailyGoalModel.id g
           \<and> DailyGoalModel.created_at g' = DailyGoalModel.created_at g
           \<and> DailyGoalModel.user_id g' = DailyGoalModel.user_id g
           \<and> db' = db\<lparr>daily_goals :=
                  map (\<lambda>x. if DailyGoalModel.id x = i then g' else x) (daily_goals db)\<rparr>"
  using assms
  by (auto simp: update_daily_goal_def Let_def partial_update_setattr
      split: option.splits if_splits)

lemma update_habit_frame:
  assumes "update_habit i u db actor now = (Inr h', db')"
  shows "\<exists>h. find (\<lambda>x. HabitModel.id x = i) (habits db) = Some h
           \<and> partial_update (HabitUpdate.title u) (HabitModel.title h) (HabitModel.title h')
           \<and> partial_update (HabitUpdate.description u) (HabitModel.description h)
               (HabitModel.description h')
           \<and> partial_update (HabitUpdate.is_completed u) (HabitModel.is_completed h)
               (HabitModel.is_completed h')
           \<and> partial_update (completed_at_update (HabitUpdate.is_completed u) now)
               (HabitModel.completed_at h) (HabitModel.completed_at h')
           \<and> HabitModel.id h' = HabitModel.id h
           \<and> HabitModel.created_at h' = HabitModel.created_at h
           \<and> HabitModel.user_id h' = HabitModel.user_id h
           \<and> db' = db\<lparr>habits := map (\<lambda>x. if HabitModel.id x = i then h' else x) (habits db)\<rparr>"
  using assms
  by (auto simp: update_habit_def Let_def partial_update_setattr
      split: option.splits if_splits)

lemma failed_update_changes_nothing:
  "update_task i ut db actor = (Inl e, db') \<Longrightarrow> db' = db"
  "update_note i un db actor = (Inl e, db') \<Longrightarrow> db' = db"
  "update_daily_goal i ug db actor = (Inl e, db') \<Longrightarrow> db' = db"
  "update_habit i uh db actor now = (Inl e, db') \<Longrightarrow> db' = db"
  by (auto simp: update_task_def update_note_def update_daily_goal_def update_habit_def
      Let_def split: option.splits if_splits)

text \<open>
  Claim C5, as amended. An update of a task, a note or a daily goal that returns the
  entity has set exactly the supplied fields to the supplied values: every field that
  the request did not supply, and \<^verbatim>\<open>id\<close>, \<^verbatim>\<open>created_at\<close> and \<^verbatim>\<open>user_id\<close>,
  which no update schema has, keep their prior values, and nothing else in the database
  changes. An update of a habit does the same, except for \<^verbatim>\<open>completed_at\<close>: it keeps
  its value when \<^verbatim>\<open>is_completed\<close> is not supplied, and is otherwise set by the
  completion rule. An update that raises changes nothing.
\<close>

theorem update_applies_exactly_supplied_fields:
  "(update_task i ut db actor = (Inr t', dbt) \<longrightarrow>
      (\<exists>t. find (\<lambda>x. TaskModel.id x = i) (tasks db) = Some t
         \<and> partial_update (TaskUpdate.title ut) (TaskModel.title t) (TaskModel.title t')
         \<and> partial_update (TaskUpdate.description ut) (TaskModel.description t)
             (TaskModel.description t')
         \<and> partial_update (TaskUpdate.due_date ut) (TaskModel.due_date t)
             (TaskModel.due_date t')
         \<and> partial_update (TaskUpdate.is_completed ut) (TaskModel.is_completed t)
             (TaskModel.is_completed t')
         \<and> TaskModel.id t' = TaskModel.id t
         \<and> TaskModel.created_at t' = TaskModel.created_at t
         \<and> TaskModel.user_id t' = TaskModel.user_id t
         \<and> dbt = db\<lparr>tasks := map (\<lambda>x. if TaskModel.id x = i then t' else x) (tasks db)\<rparr>))
   \<and> (update_note i un db actor = (Inr n', dbn) \<longrightarrow>
      (\<exists>n. find (\<lambda>x. NoteModel.id x = i) (notes_table db) = Some n
         \<and> partial_update (NoteUpdate.title un) (NoteModel.title n) (NoteModel.title n')
         \<and> partial_update (NoteUpdate.content un) (NoteModel.content n)
             (NoteModel.content n')
         \<and> NoteModel.id n' = NoteModel.id n
         \<and> NoteModel.created_at n' = NoteModel.created_at n
         \<and> NoteModel.user_id n' = NoteModel.user_id n
         \<and> dbn = db\<lparr>notes_table :=
                  map (\<lambda>x. if NoteModel.id x = i then n' else x) (notes_table db)\<rparr>))
   \<and> (update_daily_goal i ug db actor = (Inr g', dbg) \<longrightarrow>
      (\<exists>g. find (\<lambda>x. DailyGoalModel.id x = i) (daily_goals db) = Some g
         \<and> partial_update (DailyGoalUpdate.title ug) (DailyGoalModel.title g)
             (DailyGoalModel.title g')
         \<and> partial_update (DailyGoalUpdate.description ug) (DailyGoalModel.description g)
             (DailyGoalModel.description g')
         \<and> partial_update (DailyGoalUpdate.goal_date ug) (DailyGoalModel.goal_date g)
             (DailyGoalModel.goal_date g')
         \<and> partial_update (DailyGoalUpdate.is_completed ug) (DailyGoalModel.is_completed g)
             (DailyGoalModel.is_completed g')
         \<and> DailyGoalModel.id g' = DailyGoalModel.id g
         \<and> DailyGoalModel.created_at g' = DailyGoalModel.created_at g
         \<and> DailyGoalModel.user_id g' = DailyGoalModel.user_id g
         \<and> dbg = db\<lparr>daily_goals :=
                  map (\<lambda>x. if DailyGoalModel.id x = i then g' else x) (daily_goals db)\<rparr>))
   \<and> (update_habit i uh db actor now = (Inr h', dbh) \<longrightarrow>
      (\<exists>h. find (\<lambda>x. HabitModel.id x = i) (habits db) = Some h
         \<and> partial_update (HabitUpdate.title uh) (HabitModel.title h) (HabitModel.title h')
         \<and> partial_update (HabitUpdate.description uh) (HabitModel.description h)
             (HabitModel.description h')
         \<and> partial_update (HabitUpdate.is_completed uh) (HabitModel.is_completed h)
             (HabitModel.is_completed h')
         \<and> partial_update (completed_at_update (HabitUpdate.is_completed uh) now)
             (HabitModel.completed_at h) (HabitModel.completed_at h')
         \<and> HabitModel.id h' = HabitModel.id h
         \<and> HabitModel.created_at h' = HabitModel.created_at h
         \<and> HabitModel.user_id h' = HabitModel.user_id h
         \<and> dbh = db\<lparr>habits :=
                  map (\<lambda>x. if HabitModel.id x = i then h' else x) (habits db)\<rparr>))
   \<and> (update_task i ut db actor = (Inl e, dbt) \<longrightarrow> dbt = db)
   \<and> (update_note i un db actor = (Inl e, dbn) \<longrightarrow> dbn = db)
   \<and> (update_daily_goal i ug db actor = (Inl e, dbg) \<longrightarrow> dbg = db)
   \<and> (update_habit i uh db actor now = (Inl e, dbh) \<longrightarrow> dbh = db)"
  by (intro conjI impI;
      (erule update_task_frame | erule update_note_frame | erule update_daily_goal_frame
       | erule update_habit_frame | erule failed_update_changes_nothing))

theorem update_applies_exactly_supplied_fields_witness:
  "update_task 1 title_only (alices_session\<lparr>tasks := [alices_task]\<rparr>) alice
     = (Inr (alices_task\<lparr>TaskModel.title := Some ''t2''\<rparr>),
        alices_session\<lparr>tasks := [alices_task\<lparr>TaskModel.title := Some ''t2''\<rparr>]\<rparr>)
   \<and> TaskModel.description (alices_task\<lparr>TaskModel.title := Some ''t2''\<rparr>) = Some ''d1''
   \<and> TaskModel.due_date (alices_task\<lparr>TaskModel.title := Some ''t2''\<rparr>)
       = Some 1700086400000000
   \<and> TaskModel.is_completed (alices_task\<lparr>TaskModel.title := Some ''t2''\<rparr>) = Some False
   \<and> TaskModel.user_id (alices_task\<lparr>TaskModel.title := Some ''t2''\<rparr>) = 1"
proof -
  have u: "update_task 1 title_only (alices_session\<lparr>tasks := [alices_task]\<rparr>) alice
     = (Inr (alices_task\<lparr>TaskModel.title := Some ''t2''\<rparr>),
        alices_session\<lparr>tasks := [alices_task\<lparr>TaskModel.title := Some ''t2''\<rparr>]\<rparr>)"
    by (simp add: update_task_def commit_def TaskModel_not_null_def Let_def
        alices_session_def alices_task_def alice_def title_only_def)
  from update_applies_exactly_supplied_fields
    [where i = 1 and ut = title_only and db = "alices_session\<lparr>tasks := [alices_task]\<rparr>"
       and actor = alice and t' = "alices_task\<lparr>TaskModel.title := Some ''t2''\<rparr>"
       and dbt = "alices_session\<lparr>tasks := [alices_task\<lparr>TaskModel.title := Some ''t2''\<rparr>]\<rparr>"]
    u
  have "\<exists>t. find (\<lambda>x. TaskModel.id x = 1) (tasks (alices_session\<lparr>tasks := [alices_task]\<rparr>))
              = Some t
          \<and> partial_update (TaskUpdate.description title_only) (TaskModel.description t)
              (TaskModel.description (alices_task\<lparr>TaskModel.title := Some ''t2''\<rparr>))
          \<and> partial_update (TaskUpdate.due_date title_only) (TaskModel.due_date t)
              (TaskModel.due_date (alices_task\<lparr>TaskModel.title := Some ''t2''\<rparr>))
          \<and> partial_update (TaskUpdate.is_completed title_only) (TaskModel.is_completed t)
              (TaskModel.is_completed (alices_task\<lparr>TaskModel.title := Some ''t2''\<rparr>))
          \<and> TaskModel.user_id (alices_task\<lparr>TaskModel.title := Some ''t2''\<rparr>)
              = TaskModel.user_id t"
    by blast
  then show ?thesis using u
    by (simp add: alices_task_def title_only_def)
qed

text \<open>
  Claim C5 as it stands fails on habits: a request that supplies only
  \<^verbatim>\<open>is_completed\<close> also changes \<^verbatim>\<open>completed_at\<close>, which it did not supply.
\<close>

theorem update_habit_changes_unsupplied_completed_at:
  "HabitUpdate.title mark_completed = Unset
   \<and> HabitUpdate.description mark_completed = Unset
   \<and> map HabitModel.completed_at (habits alices_session) = [None]
   \<and> map HabitModel.completed_at
        (habits (snd (update_habit 1 mark_completed alices_session alice 1700000100000000)))
       = [Some 1700000100000000]"
  by (simp add: update_habit_def commit_def HabitModel_not_null_def Let_def
      alices_session_def alices_habit_def alice_def mark_completed_def)

section \<open>Tokens\<close>

lemma numeric_date_one_day:
  "numeric_date (t + timedelta_days 1) = numeric_date t + 86400"
  by (simp add: numeric_date_def timedelta_days_def)

lemma generate_token_claims:
  assumes "jwt_encode_fault env = None"
  shows "\<exists>token. generate_token env self = Inr token
           \<and> jwt_payload.exp (jwt.payload token) = numeric_date (now_exp env) + 86400
           \<and> jwt_payload.iat (jwt.payload token) = numeric_date (now_iat env)
           \<and> jwt_payload.sub (jwt.payload token) = str_int (UserModel.id self)
           \<and> jwt_payload.role (jwt.payload token) = or_default (UserModel.role self) ''CUSTOMER''
           \<and> jwt.signing_key token = secret env"
  using assms by (simp add: generate_token_def Let_def numeric_date_one_day)

lemma generate_token_same_second:
  assumes "generate_token env self = Inr token"
    and "numeric_date (now_exp env) = numeric_date (now_iat env)"
  shows "jwt_payload.exp (jwt.payload token) = jwt_payload.iat (jwt.payload token) + 86400"
  using assms
  by (auto simp: generate_token_def Let_def numeric_date_one_day split: option.splits)

lemma verify_token_rejects_expired:
  assumes "jwt_payload.exp (jwt.payload token) \<le> current_time"
  shows "verify_token key current_time token
           = (if jwt.signing_key token = key then Inl Expired else Inl Invalid)"
  using assms by (simp add: verify_token_def)

text \<open>
  Claim C3 at the input on which the code departs from it: \<^verbatim>\<open>generate_token\<close> reads
  the clock once for \<^verbatim>\<open>exp\<close> and once more for \<^verbatim>\<open>iat\<close>. When a full second
  begins between the two readings, the expiry claim is one second short of the issued-at
  claim plus 24 hours.
\<close>

theorem generate_token_across_second:
  "generate_token env_across_second alice
     = Inr \<lparr>jwt.payload =
              \<lparr>jwt_payload.exp = 1700086400, iat = 1700000001, sub = ''1'',
               role = ''CUSTOMER''\<rparr>,
            signing_key = ''your-secret-key-change-in-production''\<rparr>
   \<and> (case generate_token env_across_second alice of
         Inl e \<Rightarrow> False
       | Inr token \<Rightarrow>
           jwt_payload.exp (jwt.payload token) \<noteq> jwt_payload.iat (jwt.payload token) + 86400)"
  by (simp add: generate_token_def env_across_second_def env0_def alice_def Let_def
      numeric_date_def timedelta_days_def str_int_def str_nat.simps)

section \<open>Passwords\<close>

text \<open>
  Claim C7, as amended. For every password, \<^verbatim>\<open>verify_password\<close> returns
  \<^verbatim>\<open>False\<close> on a user whose \<^verbatim>\<open>password_hash\<close> is null, and \<^verbatim>\<open>login\<close> on such
  an account raises status 401 with the same detail as for a wrong password. On a user
  whose stored hash is malformed, \<^verbatim>\<open>verify_password\<close> raises, and \<^verbatim>\<open>login\<close>
  turns the exception into status 500.
\<close>

theorem verify_password_absent_or_malformed_hash:
  "(UserModel.password_hash db_user = None \<longrightarrow>
      verify_password db_user pw = Inr False)
   \<and> (UserModel.password_hash db_user = Some (Bcrypt salt hashed) \<and> hashed \<noteq> pw \<longrightarrow>
      verify_password db_user pw = Inr False)
   \<and> (UserModel.password_hash db_user = Some (Malformed stored) \<longrightarrow>
      verify_password db_user pw
        = Inl (PyException ''UnknownHashError'' ''hash could not be identified''))
   \<and> (query_fault db = None
       \<and> find (\<lambda>u. UserModel.username u = UserLogin.username user) (users db) = Some db_user
       \<and> UserLogin.password user = pw \<longrightarrow>
        (UserModel.password_hash db_user = None \<longrightarrow>
           login env user db = Inl (HTTPException 401 ''Invalid username or password''))
      \<and> (UserModel.password_hash db_user = Some (Bcrypt salt hashed) \<and> hashed \<noteq> pw \<longrightarrow>
           login env user db = Inl (HTTPException 401 ''Invalid username or password''))
      \<and> (UserModel.password_hash db_user = Some (Malformed stored) \<longrightarrow>
           login env user db
             = Inl (HTTPException 500 ''Login failed due to an internal error'')))"
  by (auto simp: verify_password_def login_def)

theorem verify_password_absent_or_malformed_hash_witness:
  "verify_password (alice\<lparr>UserModel.password_hash := None\<rparr>) ''pw1'' = Inr False
   \<and> login env0 \<lparr>UserLogin.username = ''alice'', password = ''pw1''\<rparr>
        (empty_session\<lparr>users := [alice\<lparr>UserModel.password_hash := None\<rparr>]\<rparr>)
       = Inl (HTTPException 401 ''Invalid username or password'')
   \<and> login env0 \<lparr>UserLogin.username = ''alice'', password = ''wrong''\<rparr>
        (empty_session\<lparr>users := [alice]\<rparr>)
       = Inl (HTTPException 401 ''Invalid username or password'')"
  using verify_password_absent_or_malformed_hash
      [where db_user = "alice\<lparr>UserModel.password_hash := None\<rparr>" and pw = "''pw1''"
         and user = "\<lparr>UserLogin.username = ''alice'', password = ''pw1''\<rparr>"
         and db = "empty_session\<lparr>users := [alice\<lparr>UserModel.password_hash := None\<rparr>]\<rparr>"
         and env = env0]
    verify_password_absent_or_malformed_hash
      [where db_user = alice and pw = "''wrong''" and salt = "''salt''"
         and hashed = "''pw1''"
         and user = "\<lparr>UserLogin.username = ''alice'', password = ''wrong''\<rparr>"
         and db = "empty_session\<lparr>users := [alice]\<rparr>" and env = env0]
  by (simp add: alice_def empty_session_def)

text \<open>
  Claim C7 as it stands fails on a malformed hash: for an account whose stored hash is
  the text \<^verbatim>\<open>pw1\<close>, \<^verbatim>\<open>verify_password\<close> raises instead of returning
  \<^verbatim>\<open>False\<close>, and \<^verbatim>\<open>login\<close> answers with status 500, not 401.
\<close>

theorem verify_password_raises_on_malformed_hash:
  "verify_password (alice\<lparr>UserModel.password_hash := Some (Malformed ''pw1'')\<rparr>) ''pw1''
     = Inl (PyException ''UnknownHashError'' ''hash could not be identified'')
   \<and> login env0 \<lparr>UserLogin.username = ''alice'', password = ''pw1''\<rparr>
        (empty_session
           \<lparr>users := [alice\<lparr>UserModel.password_hash := Some (Malformed ''pw1'')\<rparr>]\<rparr>)
       = Inl (HTTPException 500 ''Login failed due to an internal error'')"
  by (simp add: verify_password_def login_def alice_def empty_session_def)

section \<open>Registration\<close>

lemma lower_append: "lower (a @ b) = lower a @ lower b"
  by (simp add: lower_def)

lemma starts_with_append: "starts_with s (s @ t)"
  by (induction s) simp_all

lemma str_in_append: "str_in s (a @ s @ b)"
proof (induction a)
  case Nil
  show ?case
  proof (cases "s @ b")
    case Nil
    then show ?thesis by simp
  next
    case (Cons d t)
    then show ?thesis using starts_with_append[of s b] by simp
  qed
next
  case (Cons c a)
  then show ?case by simp
qed

lemma create_user_existing:
  assumes "query_fault db = None"
    and "find (\<lambda>u. UserModel.username u = UserSchema.username user
                    \<or> UserModel.email u = UserSchema.email user) (users db) = Some existing"
  shows "conflict (fst (create_user env user db)) \<and> snd (create_user env user db) = db"
  using assms by (simp add: create_user_def conflict_def)

lemma create_user_duplicate_key:
  assumes "query_fault db = None"
    and "commit_fault db = Some (IntegrityError error_msg)"
    and "str_in ''username'' (lower error_msg) \<or> str_in ''email'' (lower error_msg)"
  shows "conflict (fst (create_user env user db)) \<and> snd (create_user env user db) = db"
  using assms by (auto simp: create_user_def conflict_def Let_def split: option.split)

lemma find_existing:
  assumes "\<exists>u \<in> set xs. P u"
  shows "\<exists>x. find P xs = Some x"
  using assms by (induction xs) auto

text \<open>
  Claim C2. A registration whose username or email equals that of an existing user
  returns the Conflict outcome and leaves the database as it was. When the check finds
  nothing and the insert then fails with the \<^verbatim>\<open>IntegrityError\<close> of a duplicate key,
  whose text names the column (\<^verbatim>\<open>username\<close> or \<^verbatim>\<open>email\<close>) of the violated
  constraint, the handler returns the same Conflict outcome, again with the database as
  it was.
\<close>

theorem registration_conflict:
  "(query_fault db = None
    \<and> (\<exists>u \<in> set (users db). UserModel.username u = UserSchema.username user
                              \<or> UserModel.email u = UserSchema.email user)
    \<longrightarrow> conflict (fst (create_user env user db)) \<and> snd (create_user env user db) = db)
   \<and> (query_fault db = None
    \<and> commit_fault db = Some (IntegrityError error_msg)
    \<and> (str_in ''username'' (lower error_msg) \<or> str_in ''email'' (lower error_msg))
    \<longrightarrow> conflict (fst (create_user env user db)) \<and> snd (create_user env user db) = db)"
proof (rule conjI)
  show "query_fault db = None
    \<and> (\<exists>u \<in> set (users db). UserModel.username u = UserSchema.username user
                              \<or> UserModel.email u = UserSchema.email user)
    \<longrightarrow> conflict (fst (create_user env user db)) \<and> snd (create_user env user db) = db"
  proof (rule impI)
    assume a: "query_fault db = None
      \<and> (\<exists>u \<in> set (users db). UserModel.username u = UserSchema.username user
                                \<or> UserModel.email u = UserSchema.email user)"
    from a have q: "query_fault db = None" by (rule conjunct1)
    from a have ex: "\<exists>u \<in> set (users db). UserModel.username u = UserSchema.username user
                                  \<or> UserModel.email u = UserSchema.email user"
      by (rule conjunct2)
    from find_existing
      [where xs = "users db"
         and P = "\<lambda>u. UserModel.username u = UserSchema.username user
                      \<or> UserModel.email u = UserSchema.email user", OF ex]
    obtain existing where
      f: "find (\<lambda>u. UserModel.username u = UserSchema.username user
                     \<or> UserModel.email u = UserSchema.email user) (users db) = Some existing"
      by (rule exE)
    show "conflict (fst (create_user env user db)) \<and> snd (create_user env user db) = db"
      by (rule create_user_existing[OF q f])
  qed
next
  show "query_fault db = None
    \<and> commit_fault db = Some (IntegrityError error_msg)
    \<and> (str_in ''username'' (lower error_msg) \<or> str_in ''email'' (lower error_msg))
    \<longrightarrow> conflict (fst (create_user env user db)) \<and> snd (create_user env user db) = db"
  proof (rule impI)
    assume b: "query_fault db = None
      \<and> commit_fault db = Some (IntegrityError error_msg)
      \<and> (str_in ''username'' (lower error_msg) \<or> str_in ''email'' (lower error_msg))"
    then have q: "query_fault db = None"
      and c: "commit_fault db = Some (IntegrityError error_msg)"
      and m: "str_in ''username'' (lower error_msg) \<or> str_in ''email'' (lower error_msg)"
      by simp_all
    show "conflict (fst (create_user env user db)) \<and> snd (create_user env user db) = db"
      by (rule create_user_duplicate_key[OF q c m])
  qed
qed

theorem registration_conflict_witness:
  "conflict (fst (create_user env0 (UserSchema_of ''alice'' ''other@x.com'' ''pw9'' Unset)
                    (empty_session\<lparr>users := [alice]\<rparr>)))
   \<and> snd (create_user env0 (UserSchema_of ''alice'' ''other@x.com'' ''pw9'' Unset)
            (empty_session\<lparr>users := [alice]\<rparr>))
       = empty_session\<lparr>users := [alice]\<rparr>
   \<and> conflict (fst (create_user env0 (UserSchema_of ''alice'' ''a@x.com'' ''pw1'' Unset)
                    (empty_session
                       \<lparr>commit_fault := Some (IntegrityError duplicate_username_message)\<rparr>)))
   \<and> users (snd (create_user env0 (UserSchema_of ''alice'' ''a@x.com'' ''pw1'' Unset)
                    (empty_session
                       \<lparr>commit_fault := Some (IntegrityError duplicate_username_message)\<rparr>)))
       = []"
proof -
  have m: "str_in ''username'' (lower duplicate_username_message)"
    unfolding duplicate_username_message_def
    using str_in_append
      [of "''username''" "lower ''duplicate key value violates unique constraint \"users_''"
          "lower (''_key\" '' @ ''DETAIL:  Key (username)=(alice) already exists.'')"]
    by (simp add: lower_def lower_char_def)
  have "\<exists>u \<in> set (users (empty_session\<lparr>users := [alice]\<rparr>)).
          UserModel.username u
            = UserSchema.username (UserSchema_of ''alice'' ''other@x.com'' ''pw9'' Unset)
          \<or> UserModel.email u
            = UserSchema.email (UserSchema_of ''alice'' ''other@x.com'' ''pw9'' Unset)"
    by (simp add: alice_def UserSchema_of_def)
  moreover have "query_fault (empty_session\<lparr>users := [alice]\<rparr>) = None"
    by (simp add: empty_session_def)
  ultimately have first:
    "conflict (fst (create_user env0 (UserSchema_of ''alice'' ''other@x.com'' ''pw9'' Unset)
                      (empty_session\<lparr>users := [alice]\<rparr>)))
     \<and> snd (create_user env0 (UserSchema_of ''alice'' ''other@x.com'' ''pw9'' Unset)
              (empty_session\<lparr>users := [alice]\<rparr>))
         = empty_session\<lparr>users := [alice]\<rparr>"
    using registration_conflict
      [where db = "empty_session\<lparr>users := [alice]\<rparr>" and env = env0
         and user = "UserSchema_of ''alice'' ''other@x.com'' ''pw9'' Unset"]
    by blast
  have "query_fault
          (empty_session\<lparr>commit_fault := Some (IntegrityError duplicate_username_message)\<rparr>)
        = None"
    by (simp add: empty_session_def)
  with m have
    "conflict (fst (create_user env0 (UserSchema_of ''alice'' ''a@x.com'' ''pw1'' Unset)
                      (empty_session
                         \<lparr>commit_fault := Some (IntegrityError duplicate_username_message)\<rparr>)))
     \<and> snd (create_user env0 (UserSchema_of ''alice'' ''a@x.com'' ''pw1'' Unset)
              (empty_session
                 \<lparr>commit_fault := Some (IntegrityError duplicate_username_message)\<rparr>))
         = empty_session\<lparr>commit_fault := Some (IntegrityError duplicate_username_message)\<rparr>"
    using registration_conflict
      [where db = "empty_session
                     \<lparr>commit_fault := Some (IntegrityError duplicate_username_message)\<rparr>"
         and env = env0 and error_msg = duplicate_username_message
         and user = "UserSchema_of ''alice'' ''a@x.com'' ''pw1'' Unset"]
    by simp
  with first show ?thesis by (simp add: empty_session_def)
qed

text \<open>
  Claim C8 at the input on which the code departs from it: a registration with the role
  \<^verbatim>\<open>manager\<close> succeeds and stores the role \<^verbatim>\<open>MANAGER\<close>, which is neither of the
  two canonical values. (An absent and a null role are stored as \<^verbatim>\<open>CUSTOMER\<close>, and
  \<^verbatim>\<open>admin\<close> as \<^verbatim>\<open>ADMIN\<close>.)
\<close>

theorem create_user_stores_any_uppercased_role:
  "map UserModel.role
     (users (snd (create_user env0
        (UserSchema_of ''mallory'' ''m@x.com'' ''pw'' (Supplied (Some ''manager'')))
        empty_session)))
     = [Some ''MANAGER'']
   \<and> map_of (fst (create_user env0
        (UserSchema_of ''mallory'' ''m@x.com'' ''pw'' (Supplied (Some ''manager'')))
        empty_session)) ''role''
     = Some (JStr ''MANAGER'')
   \<and> map UserModel.role
     (users (snd (create_user env0 (UserSchema_of ''mallory'' ''m@x.com'' ''pw'' Unset)
        empty_session)))
     = [Some ''CUSTOMER'']
   \<and> map UserModel.role
     (users (snd (create_user env0 (UserSchema_of ''mallory'' ''m@x.com'' ''pw'' (Supplied None))
        empty_session)))
     = [Some ''CUSTOMER'']
   \<and> map UserModel.role
     (users (snd (create_user env0
        (UserSchema_of ''mallory'' ''m@x.com'' ''pw'' (Supplied (Some ''admin'')))
        empty_session)))
     = [Some ''ADMIN'']"
  by (simp add: create_user_def UserSchema_of_def empty_session_def env0_def Let_def
      set_password_def generate_token_def upper_def upper_char_def
      split: option.split)

lemma create_user_role:
  assumes "query_fault db = None" and "commit_fault db = None"
    and "find (\<lambda>u. UserModel.username u = UserSchema.username user
                    \<or> UserModel.email u = UserSchema.email user) (users db) = None"
  shows "\<exists>new_user. users (snd (create_user env user db)) = users db @ [new_user]
           \<and> UserModel.role new_user
               = Some (case UserSchema.role user of
                         None \<Rightarrow> ''CUSTOMER''
                       | Some r \<Rightarrow> if r = [] then ''CUSTOMER'' else upper r)"
  using assms
  by (simp add: create_user_def Let_def set_password_def split: option.split sum.split)




section \<open>Lists\<close>

lemma like_percent_all: "like ''%'' t"
  by (induction t) auto

lemma like_percent:
  "like (CHR ''%'' # ps) t \<longleftrightarrow> (\<exists>pre post. t = pre @ post \<and> like ps post)"
proof (induction t)
  case Nil
  then show ?case by simp
next
  case (Cons c t)
  show ?case
  proof
    assume "like (CHR ''%'' # ps) (c # t)"
    then consider "like ps (c # t)" | "like (CHR ''%'' # ps) t" by auto
    then show "\<exists>pre post. c # t = pre @ post \<and> like ps post"
    proof cases
      case 1
      then show ?thesis by (intro exI[of _ "[]"] exI[of _ "c # t"]) simp
    next
      case 2
      then obtain pre post where "t = pre @ post" "like ps post" using Cons.IH by auto
      then show ?thesis by (intro exI[of _ "c # pre"] exI[of _ post]) simp
    qed
  next
    assume "\<exists>pre post. c # t = pre @ post \<and> like ps post"
    then obtain pre post where pp: "c # t = pre @ post" "like ps post" by auto
    show "like (CHR ''%'' # ps) (c # t)"
    proof (cases pre)
      case Nil
      then have "like ps (c # t)" using pp by simp
      then show ?thesis by simp
    next
      case (Cons a pre')
      then have "t = pre' @ post" using pp by simp
      then have "like (CHR ''%'' # ps) t" using Cons.IH pp(2) by auto
      then show ?thesis by simp
    qed
  qed
qed

lemma like_literal:
  "\<forall>c \<in> set s. \<not> like_meta c \<Longrightarrow> like (s @ ps) t \<longleftrightarrow> (\<exists>t'. t = s @ t' \<and> like ps t')"
proof (induction s arbitrary: t)
  case Nil
  then show ?case by simp
next
  case (Cons a s)
  then have a: "a \<noteq> CHR ''%''" "a \<noteq> CHR ''_''" "a \<noteq> CHR 0x5C"
    by (auto simp: like_meta_def)
  have IH: "\<And>t. like (s @ ps) t \<longleftrightarrow> (\<exists>t'. t = s @ t' \<and> like ps t')"
    using Cons by simp
  show ?case
  proof (cases t)
    case Nil
    then show ?thesis using a by simp
  next
    case (Cons c t0)
    then show ?thesis using a IH[of t0] by auto
  qed
qed

lemma like_contains:
  assumes "\<forall>c \<in> set s. \<not> like_meta c"
  shows "like (CHR ''%'' # s @ ''%'') t \<longleftrightarrow> sublist s t"
proof -
  have "like (CHR ''%'' # s @ ''%'') t
          \<longleftrightarrow> (\<exists>pre post. t = pre @ post \<and> like (s @ ''%'') post)"
    by (rule like_percent)
  also have "\<dots> \<longleftrightarrow> (\<exists>pre post. t = pre @ post \<and> (\<exists>t'. post = s @ t' \<and> like ''%'' t'))"
    using like_literal[OF assms] by simp
  also have "\<dots> \<longleftrightarrow> (\<exists>pre t'. t = pre @ s @ t')"
    using like_percent_all by auto
  also have "\<dots> \<longleftrightarrow> sublist s t" by (auto simp: sublist_def)
  finally show ?thesis .
qed

lemma lower_char_meta: "like_meta (lower_char c) \<longleftrightarrow> like_meta c"
  by (auto simp: like_meta_def lower_char_def split: option.splits if_splits)

lemma lower_char_percent: "lower_char (CHR ''%'') = CHR ''%''"
  by (simp add: lower_char_def)

lemma column_ilike_contains:
  assumes "list_all (\<lambda>c. \<not> like_meta c) s"
  shows "column_ilike column (search_term s) = contains_ci s column"
proof (cases column)
  case None
  then show ?thesis by simp
next
  case (Some str)
  have "\<forall>c \<in> set (lower s). \<not> like_meta c"
    using assms by (auto simp: lower_def list_all_iff lower_char_meta)
  from like_contains[OF this, of "lower str"] show ?thesis
    using Some by (simp add: ilike_def search_term_def lower_def lower_char_percent)
qed

lemma newest_first_sort_key:
  fixes f :: "'a \<Rightarrow> int"
  shows "newest_first (map f (sort_key (\<lambda>x. - f x) xs))"
proof -
  have "sorted (map (\<lambda>x. - f x) (sort_key (\<lambda>x. - f x) xs))"
    by (rule sorted_sort_key)
  then show ?thesis
    by (simp add: newest_first_def sorted_wrt_map)
qed

lemma newest_first_take_drop:
  "newest_first (map f xs) \<Longrightarrow> newest_first (map f (take n (drop k xs)))"
  unfolding newest_first_def
  by (simp add: take_map[symmetric] drop_map[symmetric] sorted_wrt_take sorted_wrt_drop)
lemma get_tasks_spec:
  assumes "query_fault db = None" and "plain_search search"
  shows "get_tasks db actor completed search
         = Inr (sort_key (\<lambda>t. - TaskModel.created_at t)
             (filter (\<lambda>t. TaskModel.user_id t = UserModel.id actor
                        \<and> exact_match completed (TaskModel.is_completed t)
                        \<and> search_matches search [TaskModel.title t, TaskModel.description t])
                (tasks db)))"
  using assms
  by (cases completed; cases search)
     (simp_all add: get_tasks_def Let_def column_ilike_contains)

lemma get_my_habits_spec:
  assumes "query_fault db = None"
  shows "get_my_habits completed db actor
         = Inr (sort_key (\<lambda>h. - HabitModel.created_at h)
             (filter (\<lambda>h. HabitModel.user_id h = UserModel.id actor
                        \<and> exact_match completed (HabitModel.is_completed h))
                (habits db)))"
  using assms
  by (cases completed) (simp_all add: get_my_habits_def Let_def)

lemma get_user_notes_spec:
  assumes "query_fault db = None" and "plain_search search"
  shows "get_user_notes db actor search
         = Inr (sort_key (\<lambda>n. - NoteModel.created_at n)
             (filter (\<lambda>n. NoteModel.user_id n = UserModel.id actor
                        \<and> search_matches search [NoteModel.title n, NoteModel.content n])
                (notes_table db)))"
  using assms
  by (cases search) (simp_all add: get_user_notes_def Let_def column_ilike_contains)

lemma get_daily_goals_spec:
  assumes "query_fault db = None" and "plain_search search"
    and "1 \<le> l" and "l \<le> 100" and "0 \<le> k"
  shows "get_daily_goals db actor on_date completed search (Some l) (Some k)
         = Inr (take (nat l) (drop (nat k)
             (sort_key (\<lambda>g. - DailyGoalModel.created_at g)
                (filter (\<lambda>g. DailyGoalModel.user_id g = UserModel.id actor
                           \<and> exact_match on_date (DailyGoalModel.goal_date g)
                           \<and> exact_match completed (DailyGoalModel.is_completed g)
                           \<and> search_matches search
                                [DailyGoalModel.title g, DailyGoalModel.description g])
                   (daily_goals db)))))"
  using assms
  by (cases on_date; cases completed; cases search)
     (simp_all add: get_daily_goals_def Let_def column_ilike_contains)

lemma get_daily_goals_defaults:
  "get_daily_goals db actor on_date completed search None offset_param
     = get_daily_goals db actor on_date completed search (Some 20) offset_param"
  "get_daily_goals db actor on_date completed search limit_param None
     = get_daily_goals db actor on_date completed search limit_param (Some 0)"
  by (simp_all add: get_daily_goals_def)

lemma get_daily_goals_bounds:
  "l < 1 \<or> 100 < l \<or> k < 0 \<Longrightarrow>
   get_daily_goals db actor on_date completed search (Some l) (Some k)
     = Inl (HTTPException 422 ''Invalid request data'')"
  by (auto simp: get_daily_goals_def)
text \<open>
  Claim C9, as amended. Each of the four owned resources has an owner-scoped list that
  returns the entities of the authenticated user, newest first by creation time, and
  each supports its own filters: tasks the completion status and the search over title
  and description; habits the completion status only; notes the search over title and
  content only; daily goals the date, the completion status and the search over title
  and description. A status or date filter is an exact match; the search, for a term
  without \<^verbatim>\<open>LIKE\<close> wildcards, keeps an entity iff the term occurs without regard to
  case in one of the two columns. Only the list of daily goals is paginated: it skips
  \<^verbatim>\<open>offset\<close> entities and returns at most \<^verbatim>\<open>limit\<close>, with \<^verbatim>\<open>limit\<close> from 1
  to 100 (20 when absent) and \<^verbatim>\<open>offset\<close> at least 0 (0 when absent), and refuses
  other values with status 422. The other three lists return every matching entity.
\<close>

theorem owner_scoped_lists:
  "(query_fault db = None \<and> plain_search search \<longrightarrow>
      (\<exists>ts. get_tasks db actor completed search = Inr ts
         \<and> ts = sort_key (\<lambda>t. - TaskModel.created_at t)
              (filter (\<lambda>t. TaskModel.user_id t = UserModel.id actor
                         \<and> exact_match completed (TaskModel.is_completed t)
                         \<and> search_matches search [TaskModel.title t, TaskModel.description t])
                 (tasks db))
         \<and> newest_first (map TaskModel.created_at ts)))
   \<and> (query_fault db = None \<longrightarrow>
      (\<exists>hs. get_my_habits completed db actor = Inr hs
         \<and> hs = sort_key (\<lambda>h. - HabitModel.created_at h)
              (filter (\<lambda>h. HabitModel.user_id h = UserModel.id actor
                         \<and> exact_match completed (HabitModel.is_completed h))
                 (habits db))
         \<and> newest_first (map HabitModel.created_at hs)))
   \<and> (query_fault db = None \<and> plain_search search \<longrightarrow>
      (\<exists>ns. get_user_notes db actor search = Inr ns
         \<and> ns = sort_key (\<lambda>n. - NoteModel.created_at n)
              (filter (\<lambda>n. NoteModel.user_id n = UserModel.id actor
                         \<and> search_matches search [NoteModel.title n, NoteModel.content n])
                 (notes_table db))
         \<and> newest_first (map NoteModel.created_at ns)))
   \<and> (query_fault db = None \<and> plain_search search \<and> 1 \<le> l \<and> l \<le> 100 \<and> 0 \<le> k \<longrightarrow>
      (\<exists>gs. get_daily_goals db actor on_date completed search (Some l) (Some k) = Inr gs
         \<and> gs = take (nat l) (drop (nat k)
              (sort_key (\<lambda>g. - DailyGoalModel.created_at g)
                 (filter (\<lambda>g. DailyGoalModel.user_id g = UserModel.id actor
                            \<and> exact_match on_date (DailyGoalModel.goal_date g)
                            \<and> exact_match completed (DailyGoalModel.is_completed g)
                            \<and> search_matches search
                                 [DailyGoalModel.title g, DailyGoalModel.description g])
                    (daily_goals db))))
         \<and> newest_first (map DailyGoalModel.created_at gs)
         \<and> int (length gs) \<le> l))
   \<and> (l < 1 \<or> 100 < l \<or> k < 0 \<longrightarrow>
      get_daily_goals db actor on_date completed search (Some l) (Some k)
        = Inl (HTTPException 422 ''Invalid request data''))
   \<and> get_daily_goals db actor on_date completed search None offset_param
       = get_daily_goals db actor on_date completed search (Some 20) offset_param
   \<and> get_daily_goals db actor on_date completed search limit_param None
       = get_daily_goals db actor on_date completed search limit_param (Some 0)"
proof (intro conjI impI)
  assume "query_fault db = None \<and> plain_search search"
  then show "\<exists>ts. get_tasks db actor completed search = Inr ts
         \<and> ts = sort_key (\<lambda>t. - TaskModel.created_at t)
              (filter (\<lambda>t. TaskModel.user_id t = UserModel.id actor
                         \<and> exact_match completed (TaskModel.is_completed t)
                         \<and> search_matches search [TaskModel.title t, TaskModel.description t])
                 (tasks db))
         \<and> newest_first (map TaskModel.created_at ts)"
    by (simp add: get_tasks_spec newest_first_sort_key)
next
  assume "query_fault db = None"
  then show "\<exists>hs. get_my_habits completed db actor = Inr hs
         \<and> hs = sort_key (\<lambda>h. - HabitModel.created_at h)
              (filter (\<lambda>h. HabitModel.user_id h = UserModel.id actor
                         \<and> exact_match completed (HabitModel.is_completed h))
                 (habits db))
         \<and> newest_first (map HabitModel.created_at hs)"
    by (simp add: get_my_habits_spec newest_first_sort_key)
next
  assume "query_fault db = None \<and> plain_search search"
  then show "\<exists>ns. get_user_notes db actor search = Inr ns
         \<and> ns = sort_key (\<lambda>n. - NoteModel.created_at n)
              (filter (\<lambda>n. NoteModel.user_id n = UserModel.id actor
                         \<and> search_matches search [NoteModel.title n, NoteModel.content n])
                 (notes_table db))
         \<and> newest_first (map NoteModel.created_at ns)"
    by (simp add: get_user_notes_spec newest_first_sort_key)
next
  assume a: "query_fault db = None \<and> plain_search search \<and> 1 \<le> l \<and> l \<le> 100 \<and> 0 \<le> k"
  then show "\<exists>gs. get_daily_goals db actor on_date completed search (Some l) (Some k) = Inr gs
         \<and> gs = take (nat l) (drop (nat k)
              (sort_key (\<lambda>g. - DailyGoalModel.created_at g)
                 (filter (\<lambda>g. DailyGoalModel.user_id g = UserModel.id actor
                            \<and> exact_match on_date (DailyGoalModel.goal_date g)
                            \<and> exact_match completed (DailyGoalModel.is_completed g)
                            \<and> search_matches search
                                 [DailyGoalModel.title g, DailyGoalModel.description g])
                    (daily_goals db))))
         \<and> newest_first (map DailyGoalModel.created_at gs)
         \<and> int (length gs) \<le> l"
    by (auto simp: get_daily_goals_spec newest_first_sort_key newest_first_take_drop
        min_def)
next
  assume "l < 1 \<or> 100 < l \<or> k < 0"
  then show "get_daily_goals db actor on_date completed search (Some l) (Some k)
        = Inl (HTTPException 422 ''Invalid request data'')"
    by (rule get_daily_goals_bounds)
next
  show "get_daily_goals db actor on_date completed search None offset_param
       = get_daily_goals db actor on_date completed search (Some 20) offset_param"
    by (rule get_daily_goals_defaults)
next
  show "get_daily_goals db actor on_date completed search limit_param None
       = get_daily_goals db actor on_date completed search limit_param (Some 0)"
    by (rule get_daily_goals_defaults)
qed

theorem owner_scoped_lists_witness:
  "get_tasks task_session alice None (Some ''BUY'') = Inr [milk_task]
   \<and> get_tasks task_session alice None None = Inr [book_task, milk_task]
   \<and> newest_first (map TaskModel.created_at [book_task, milk_task])"
proof -
  have one: "get_tasks task_session alice None (Some ''BUY'') = Inr [milk_task]"
    by (simp add: get_tasks_def task_session_def empty_session_def alice_def milk_task_def
        book_task_def bread_task_def Let_def search_term_def ilike_def lower_def
        lower_char_def)
  have all: "get_tasks task_session alice None None = Inr [book_task, milk_task]"
    by (simp add: get_tasks_def task_session_def empty_session_def alice_def milk_task_def
        book_task_def bread_task_def Let_def)
  have "query_fault task_session = None \<and> plain_search None"
    by (simp add: task_session_def empty_session_def)
  with owner_scoped_lists
    [where db = task_session and actor = alice and completed = None and search = None]
  obtain ts where "get_tasks task_session alice None None = Inr ts"
    and "newest_first (map TaskModel.created_at ts)"
    by blast
  with all have "newest_first (map TaskModel.created_at [book_task, milk_task])"
    by simp
  with one all show ?thesis by simp
qed

text \<open>
  Claim C9 as it stands says that every list is paginated by a limit of at most 100.
  \<^verbatim>\<open>get_tasks\<close> has no limit and no offset: for a user who owns 101 tasks it
  returns all 101.
\<close>

theorem get_tasks_is_not_paginated:
  "(case get_tasks many_tasks alice None None of
      Inl e \<Rightarrow> False
    | Inr ts \<Rightarrow> length ts = 101)"
  by (simp add: get_tasks_def many_tasks_def empty_session_def alice_def milk_task_def
      Let_def comp_def)

end
